theory Spec2Isabelle
  imports Complex_Main "HOL-Library.Char_ord" "HOL-Library.List_Lexorder"
    "HOL-Library.Product_Lexorder" "HOL-Library.Multiset"
begin

section \<open>Text helpers\<close>

text \<open>
  Python strings are modelled as \<^typ>\<open>string\<close>, one \<^typ>\<open>char\<close> per code point, so only
  code points below 256 occur. \<open>is_space\<close> is what \<^verbatim>\<open>\s\<close> and \<^verbatim>\<open>str.strip()\<close> treat as
  whitespace in that range.
\<close>

definition is_space :: "char \<Rightarrow> bool" where
  "is_space c = (of_char c \<in> {9::nat, 10, 11, 12, 13, 28, 29, 30, 31, 32, 133, 160})"

definition is_digit :: "char \<Rightarrow> bool" where
  "is_digit c = (c \<in> set ''0123456789'')"

definition digit_val :: "char \<Rightarrow> nat" where
  "digit_val c = of_char c - 48"

definition strip :: "string \<Rightarrow> string" where
  "strip s = rev (dropWhile is_space (rev (dropWhile is_space s)))"

text \<open>\<^verbatim>\<open>re.sub(r"\s+", " ", s)\<close>: every maximal run of whitespace becomes one blank.\<close>

function collapse_ws :: "string \<Rightarrow> string" where
  "collapse_ws [] = []"
| "collapse_ws (c # cs) =
     (if is_space c then CHR '' '' # collapse_ws (dropWhile is_space cs)
      else c # collapse_ws cs)"
  by pat_completeness auto
termination
  by (relation "measure length") (auto simp: length_dropWhile_le less_Suc_eq_le)

definition clean_text :: "string \<Rightarrow> string" where
  "clean_text s = strip (collapse_ws s)"

text \<open>
  \<^verbatim>\<open>str.lower()\<close> below code point 256: the letters A to Z and the accented capitals
  from 192 to 222, the multiplication sign 215 apart, move up by 32.
\<close>

definition lower_char :: "char \<Rightarrow> char" where
  "lower_char c =
     (if ((65::nat) \<le> of_char c \<and> of_char c \<le> (90::nat))
         \<or> ((192::nat) \<le> of_char c \<and> of_char c \<le> (222::nat) \<and> of_char c \<noteq> (215::nat))
      then char_of (of_char c + (32::nat))
      else c)"

definition lower :: "string \<Rightarrow> string" where
  "lower s = map lower_char s"

definition startswith :: "string \<Rightarrow> string \<Rightarrow> bool" where
  "startswith s p = (take (length p) s = p)"

text \<open>\<^verbatim>\<open>s.replace(old, new)\<close> for a non-empty \<open>old\<close>: leftmost occurrences, not overlapping.\<close>

function replace :: "string \<Rightarrow> string \<Rightarrow> string \<Rightarrow> string" where
  "replace old new [] = []"
| "replace old new (c # cs) =
     (if old \<noteq> [] \<and> startswith (c # cs) old
      then new @ replace old new (drop (length old) (c # cs))
      else c # replace old new cs)"
  by pat_completeness auto
termination
  by (relation "measure (\<lambda>(old, new, s). length s)") (auto simp: neq_Nil_conv)

text \<open>Decimal rendering of a natural number, as \<^verbatim>\<open>str(n)\<close> gives it.\<close>

definition digit_char :: "nat \<Rightarrow> char" where
  "digit_char d = char_of (48 + d)"

function show_nat :: "nat \<Rightarrow> string" where
  "show_nat n = (if n < 10 then [digit_char n] else show_nat (n div 10) @ [digit_char (n mod 10)])"
  by pat_completeness auto
termination
  by (relation "measure id") auto

declare show_nat.simps [simp del]

text \<open>\<^verbatim>\<open>f"{n:,}"\<close>: the decimal digits in groups of three, separated by commas.\<close>

function group3 :: "string \<Rightarrow> string" where
  "group3 ds =
     (if length ds \<le> 3 then ds
      else group3 (take (length ds - 3) ds) @ '','' @ drop (length ds - 3) ds)"
  by pat_completeness auto
termination
  by (relation "measure length") auto

declare group3.simps [simp del]

definition show_nat_grouped :: "nat \<Rightarrow> string" where
  "show_nat_grouped n = group3 (show_nat n)"

section \<open>Floats\<close>

text \<open>
  A Python float is a finite value, an infinity (the flag is the sign, True for negative)
  or NaN. A finite value is kept as the rational number the literal denotes; rounding to 53
  bits is not modelled, only the two roundings that change what kind of value results:
  underflow to zero and overflow to infinity. Negative zero is not told apart from zero.
\<close>

datatype pyfloat = Finite rat | Infinity bool | NaN

text \<open>Truthiness of a float: every value but zero is true, NaN included.\<close>

fun float_truthy :: "pyfloat \<Rightarrow> bool" where
  "float_truthy (Finite q) = (q \<noteq> 0)"
| "float_truthy (Infinity neg) = True"
| "float_truthy NaN = True"

definition round_double :: "rat \<Rightarrow> pyfloat" where
  "round_double q =
     (if \<bar>q\<bar> \<le> 1 / 2 ^ 1075 then Finite 0
      else if 2 ^ 1024 - 2 ^ 970 \<le> \<bar>q\<bar> then Infinity (q < 0)
      else Finite q)"

text \<open>
  The grammar of \<^verbatim>\<open>float(s)\<close>: surrounding whitespace is dropped, then an optional sign,
  then \<^verbatim>\<open>inf\<close>, \<^verbatim>\<open>infinity\<close> or \<^verbatim>\<open>nan\<close> in any letter case, or a decimal number with an
  optional exponent. Digits may be separated by single underscores. \<open>digit_tail\<close> reads the
  rest of a digit part after its first digit.
\<close>

fun digit_tail :: "string \<Rightarrow> string \<times> string" where
  "digit_tail [] = ([], [])"
| "digit_tail [c] = (if is_digit c then ([c], []) else ([], [c]))"
| "digit_tail (c # d # cs) =
     (if is_digit c then (case digit_tail (d # cs) of (ds, r) \<Rightarrow> (c # ds, r))
      else if c = CHR ''_'' \<and> is_digit d then (case digit_tail cs of (ds, r) \<Rightarrow> (d # ds, r))
      else ([], c # d # cs))"

fun digitpart :: "string \<Rightarrow> string \<times> string" where
  "digitpart [] = ([], [])"
| "digitpart (c # cs) =
     (if is_digit c then (case digit_tail cs of (ds, r) \<Rightarrow> (c # ds, r)) else ([], c # cs))"

definition nat_of_digits :: "string \<Rightarrow> nat" where
  "nat_of_digits ds = foldl (\<lambda>n c. 10 * n + digit_val c) 0 ds"

fun take_sign :: "string \<Rightarrow> bool \<times> string" where
  "take_sign (c # cs) =
     (if c = CHR ''-'' then (True, cs) else if c = CHR ''+'' then (False, cs)
      else (False, c # cs))"
| "take_sign [] = (False, [])"

text \<open>The exponent part: absent, or \<^verbatim>\<open>e\<close> with an optional sign and at least one digit.\<close>

definition exponent :: "string \<Rightarrow> int option" where
  "exponent s =
     (case s of
        [] \<Rightarrow> Some 0
      | c # cs \<Rightarrow>
          if c = CHR ''e'' \<or> c = CHR ''E'' then
            (case take_sign cs of (neg, r) \<Rightarrow>
               (case digitpart r of (ds, r') \<Rightarrow>
                  if ds \<noteq> [] \<and> r' = []
                  then Some (if neg then - int (nat_of_digits ds) else int (nat_of_digits ds))
                  else None))
          else None)"

definition scale10 :: "rat \<Rightarrow> int \<Rightarrow> rat" where
  "scale10 q e = (if 0 \<le> e then q * 10 ^ nat e else q / 10 ^ nat (- e))"

text \<open>The unsigned number: digits, an optional point and fraction, an optional exponent.\<close>

definition floatnumber :: "string \<Rightarrow> rat option" where
  "floatnumber s =
     (case digitpart s of (ipart, r) \<Rightarrow>
        (case r of
           c # r1 \<Rightarrow>
             if c = CHR ''.'' then
               (case digitpart r1 of (fpart, r2) \<Rightarrow>
                  if ipart = [] \<and> fpart = [] then None
                  else map_option
                         (scale10 (of_nat (nat_of_digits ipart)
                                   + of_nat (nat_of_digits fpart) / 10 ^ length fpart))
                         (exponent r2))
             else if ipart = [] then None
             else map_option (scale10 (of_nat (nat_of_digits ipart))) (exponent r)
         | [] \<Rightarrow> if ipart = [] then None else Some (of_nat (nat_of_digits ipart))))"

definition py_float :: "string \<Rightarrow> pyfloat option" where
  "py_float s =
     (case take_sign (strip s) of (neg, body) \<Rightarrow>
        if lower body = ''inf'' \<or> lower body = ''infinity'' then Some (Infinity neg)
        else if lower body = ''nan'' then Some NaN
        else map_option (\<lambda>q. round_double (if neg then - q else q)) (floatnumber body))"

section \<open>Markup\<close>

text \<open>
  The HTML parser is a library, so a parsed document is given by what the selectors of the
  scraper find in it. A \<open>node\<close> holds what \<open>extract_coords_from_node\<close> looks for below
  an element: the text of the first \<^verbatim>\<open>.geo\<close>, \<^verbatim>\<open>.latitude\<close> and \<^verbatim>\<open>.longitude\<close>
  elements (\<open>None\<close> when there is no such element) and, for the first
  \<^verbatim>\<open>a.mw-kartographer-maplink\<close>, its \<^verbatim>\<open>data-lat\<close> and \<^verbatim>\<open>data-lon\<close>
  attributes (each \<open>None\<close> when the attribute is missing). An element found is always
  true in a condition, so \<^verbatim>\<open>if geo:\<close> tests for presence.
\<close>

record node =
  sel_geo :: "string option"
  sel_latitude :: "string option"
  sel_longitude :: "string option"
  sel_maplink :: "(string option \<times> string option) option"

datatype cell_tag = TD | TH

text \<open>
  A cell of a listing row: its tag, its \<^verbatim>\<open>get_text(" ")\<close> and the \<^verbatim>\<open>href\<close> of the first
  link with one inside it. A listing row is a node with the cells that
  \<^verbatim>\<open>find_all(["td", "th"])\<close> returns.
\<close>

record cell =
  cell_tag :: cell_tag
  cell_text :: string
  cell_href :: "string option"

record table_row = node +
  cells :: "cell list"

text \<open>
  A row of the infobox: the \<^verbatim>\<open>get_text(" ")\<close> of its first \<^verbatim>\<open>th\<close> and of its first
  \<^verbatim>\<open>td\<close>, \<open>None\<close> for a missing cell.
\<close>

record info_row =
  th_text :: "string option"
  td_text :: "string option"

text \<open>
  The headings (\<^verbatim>\<open>h2\<close>, \<^verbatim>\<open>h3\<close>) and tables of a document, in document order. A heading
  carries whether it lies inside \<^verbatim>\<open>#bodyContent\<close> and its \<^verbatim>\<open>get_text(" ")\<close>; a table
  carries its class list and the rows \<^verbatim>\<open>select("tr")\<close> returns.
\<close>

datatype element = Heading bool string | Table "string list" "table_row list"

record soup = node +
  infobox :: "info_row list option"
  elements :: "element list"

section \<open>The network\<close>

text \<open>
  A response carries its status code and, in place of its text, the parse of that text.
  \<^verbatim>\<open>session.get\<close> returns a response, raises a \<^verbatim>\<open>RequestException\<close> (every transport
  failure is one) or raises something else. A response is true in a condition unless its
  status is a client or server error.
\<close>

record response =
  status_code :: nat
  body :: soup

datatype error = ValueError | OverflowError | OtherError string

datatype get_outcome =
  Returns response | Raises_RequestException string | Raises error

definition response_truthy :: "response \<Rightarrow> bool" where
  "response_truthy r = (\<not> (400 \<le> status_code r \<and> status_code r < 600))"

record env =
  http_get :: "string \<Rightarrow> get_outcome"
  urljoin :: "string \<Rightarrow> string \<Rightarrow> string"

definition WIKI_BASE :: string where
  "WIKI_BASE = ''https://en.wikipedia.org''"

definition LIST_URL :: string where
  "LIST_URL = ''https://en.wikipedia.org/wiki/List_of_hospitals_in_British_Columbia''"

definition HEALTH_SECTIONS :: "string list" where
  "HEALTH_SECTIONS =
     [''Fraser Health'', ''Interior Health'', ''Island Health'', ''Northern Health'',
      ''Vancouver Coastal Health'', ''Provincial Health Services Authority'',
      ''Providence Health Care'', ''Other'']"

definition warn :: "string \<Rightarrow> string \<Rightarrow> string" where
  "warn url what = ''[warn] GET '' @ url @ '' -> '' @ what @ [CHR 0x0A]"

text \<open>
  \<open>fetch\<close> is \<^verbatim>\<open>_fetch\<close>. It takes the diagnostic stream written so far and returns it
  with the result: \<open>Inr (Some r)\<close> for a response, \<open>Inr None\<close> for \<^verbatim>\<open>None\<close>, \<open>Inl e\<close>
  when an exception leaves the function.
\<close>

definition fetch ::
  "(string \<Rightarrow> get_outcome) \<Rightarrow> string \<Rightarrow> string list \<Rightarrow> (error + response option) \<times> string list"
where
  "fetch get url err =
     (case get url of
        Returns resp \<Rightarrow>
          if status_code resp = 200 then (Inr (Some resp), err)
          else (Inr None, err @ [warn url (show_nat (status_code resp))])
      | Raises_RequestException e \<Rightarrow> (Inr None, err @ [warn url e])
      | Raises e \<Rightarrow> (Inl e, err))"

section \<open>Coordinates\<close>

text \<open>
  \<^verbatim>\<open>re.split(r"[;, ]+", txt)\<close>: the pieces between maximal runs of separators, with an
  empty piece before a leading and after a trailing run.
\<close>

definition is_sep :: "char \<Rightarrow> bool" where
  "is_sep c = (c = CHR '';'' \<or> c = CHR '','' \<or> c = CHR '' '')"

function re_split :: "string \<Rightarrow> string list" where
  "re_split [] = [[]]"
| "re_split (c # cs) =
     (if is_sep c then [] # re_split (dropWhile is_sep cs)
      else (case re_split cs of p # ps \<Rightarrow> (c # p) # ps | [] \<Rightarrow> [[c]]))"
  by pat_completeness auto
termination
  by (relation "measure length") (auto simp: length_dropWhile_le less_Suc_eq_le)

type_synonym coords = "pyfloat option \<times> pyfloat option"

text \<open>
  \<open>extract_coords_from_node\<close> is three blocks, each returning a pair or falling through
  to the next; \<^verbatim>\<open>float\<close> raising \<^verbatim>\<open>ValueError\<close> is \<open>py_float\<close> returning \<open>None\<close>.
  The blocks are written last first, each one naming the block it falls through to.
\<close>

definition coords_from_maplink :: "'a node_scheme \<Rightarrow> coords" where
  "coords_from_maplink node =
     (case sel_maplink node of
        Some (Some la, Some lo) \<Rightarrow>
          (case py_float la of
             Some a \<Rightarrow> (case py_float lo of Some b \<Rightarrow> (Some a, Some b) | None \<Rightarrow> (None, None))
           | None \<Rightarrow> (None, None))
      | _ \<Rightarrow> (None, None))"

definition coords_from_lat_lon :: "'a node_scheme \<Rightarrow> coords" where
  "coords_from_lat_lon node =
     (case (sel_latitude node, sel_longitude node) of
        (Some la, Some lo) \<Rightarrow>
          (case py_float (strip la) of
             Some a \<Rightarrow>
               (case py_float (strip lo) of
                  Some b \<Rightarrow> (Some a, Some b)
                | None \<Rightarrow> coords_from_maplink node)
           | None \<Rightarrow> coords_from_maplink node)
      | _ \<Rightarrow> coords_from_maplink node)"

definition extract_coords_from_node :: "'a node_scheme \<Rightarrow> coords" where
  "extract_coords_from_node node =
     (case sel_geo node of
        Some geo \<Rightarrow>
          (case filter (\<lambda>p. p \<noteq> []) (re_split (clean_text geo)) of
             p0 # p1 # ps \<Rightarrow>
               (case py_float p0 of
                  Some a \<Rightarrow>
                    (case py_float p1 of
                       Some b \<Rightarrow> (Some a, Some b)
                     | None \<Rightarrow> coords_from_lat_lon node)
                | None \<Rightarrow> coords_from_lat_lon node)
           | _ \<Rightarrow> coords_from_lat_lon node)
      | None \<Rightarrow> coords_from_lat_lon node)"

section \<open>Listing records\<close>

text \<open>
  A row of the listing is a dictionary with six keys; enrichment adds three more. The
  absent value \<^verbatim>\<open>None\<close> is \<open>None\<close>.
\<close>

record listing =
  Health_Authority :: string
  Facility_Name :: string
  Location_City :: string
  Latitude :: "pyfloat option"
  Longitude :: "pyfloat option"
  Hospital_Page_URL :: "string option"

record enriched = listing +
  Beds_Raw :: "string option"
  Beds :: "int option"
  Beds_Source_URL :: "string option"

definition is_heading :: "element \<Rightarrow> bool" where
  "is_heading e = (case e of Heading in_body txt \<Rightarrow> True | Table cls rows \<Rightarrow> False)"

text \<open>
  The first loop of \<open>extract_tables_under_section\<close>: the elements after the first heading
  inside the body whose title starts with the section title, or \<open>None\<close>.
\<close>

fun find_heading :: "string \<Rightarrow> element list \<Rightarrow> element list option" where
  "find_heading section_title [] = None"
| "find_heading section_title (Table cls rows # es) = find_heading section_title es"
| "find_heading section_title (Heading in_body txt # es) =
     (if in_body
         \<and> startswith (lower (strip (replace ''[edit]'' [] (clean_text txt))))
              (lower section_title)
      then Some es else find_heading section_title es)"

definition extract_tables_under_section :: "'a soup_scheme \<Rightarrow> string \<Rightarrow> table_row list list" where
  "extract_tables_under_section soup section_title =
     (case find_heading section_title (elements soup) of
        None \<Rightarrow> []
      | Some following \<Rightarrow>
          concat (map (\<lambda>e. case e of
                             Table cls rows \<Rightarrow> if ''wikitable'' \<in> set cls then [rows] else []
                           | Heading in_body txt \<Rightarrow> [])
                      (takeWhile (\<lambda>e. \<not> is_heading e) following)))"

text \<open>One pass of the innermost loop of \<open>parse_list_tables\<close>: the row appended, if any.\<close>

definition parse_row :: "(string \<Rightarrow> string \<Rightarrow> string) \<Rightarrow> string \<Rightarrow> table_row \<Rightarrow> listing option" where
  "parse_row join section tr =
     (case cells tr of
        facility_cell # city_cell # others \<Rightarrow>
          if cell_tag facility_cell = TH then None
          else if clean_text (cell_text facility_cell) = [] then None
          else
            (case extract_coords_from_node tr of (lat, lon) \<Rightarrow>
               Some \<lparr>Health_Authority = section,
                     Facility_Name = clean_text (cell_text facility_cell),
                     Location_City = clean_text (cell_text city_cell),
                     Latitude = lat,
                     Longitude = lon,
                     Hospital_Page_URL =
                       (case cell_href facility_cell of
                          None \<Rightarrow> None
                        | Some hospital_href \<Rightarrow>
                            if hospital_href = [] then None
                            else Some (join WIKI_BASE hospital_href))\<rparr>)
      | _ \<Rightarrow> None)"

definition parse_list_tables :: "(string \<Rightarrow> string \<Rightarrow> string) \<Rightarrow> 'a soup_scheme \<Rightarrow> listing list" where
  "parse_list_tables join soup =
     concat (map (\<lambda>section.
               concat (map (\<lambda>table. List.map_filter (parse_row join section) table)
                           (extract_tables_under_section soup section)))
             HEALTH_SECTIONS)"

section \<open>Detail pages\<close>

text \<open>
  \<^verbatim>\<open>re.search(r"(\d{1,4})", s)\<close>: the leftmost digit and the digits after it, four at most.
\<close>

definition search_digits :: "string \<Rightarrow> string option" where
  "search_digits s =
     (case dropWhile (\<lambda>c. \<not> is_digit c) s of
        [] \<Rightarrow> None
      | d # ds \<Rightarrow> Some (take 4 (takeWhile is_digit (d # ds))))"

text \<open>
  The loop over the rows of the infobox, with its \<^verbatim>\<open>continue\<close> and \<^verbatim>\<open>break\<close>;
  the result is \<open>(beds_raw, beds_int)\<close>. \<^verbatim>\<open>int\<close> of a run of digits does not raise.
\<close>

fun scan_infobox :: "info_row list \<Rightarrow> string option \<times> int option" where
  "scan_infobox [] = (None, None)"
| "scan_infobox (tr # trs) =
     (case th_text tr of
        None \<Rightarrow> scan_infobox trs
      | Some th \<Rightarrow>
          (case td_text tr of
             None \<Rightarrow> scan_infobox trs
           | Some td \<Rightarrow>
               if startswith (lower (clean_text th)) ''beds''
               then (Some (clean_text td),
                     map_option (\<lambda>m. int (nat_of_digits m))
                       (search_digits (replace '','' [] (clean_text td))))
               else scan_infobox trs))"

definition parse_beds_and_coords_from_hospital ::
  "(string \<Rightarrow> get_outcome) \<Rightarrow> string \<Rightarrow> string list
     \<Rightarrow> (error + string option \<times> int option \<times> pyfloat option \<times> pyfloat option) \<times> string list"
where
  "parse_beds_and_coords_from_hospital get url err =
     (case fetch get url err of
        (Inl e, err') \<Rightarrow> (Inl e, err')
      | (Inr None, err') \<Rightarrow> (Inr (None, None, None, None), err')
      | (Inr (Some r), err') \<Rightarrow>
          if \<not> response_truthy r then (Inr (None, None, None, None), err')
          else
            (case extract_coords_from_node (body r) of (lat, lon) \<Rightarrow>
               (case (case infobox (body r) of None \<Rightarrow> (None, None)
                      | Some trs \<Rightarrow> scan_infobox trs) of
                  (beds_raw, beds_int) \<Rightarrow> (Inr (beds_raw, beds_int, lat, lon), err'))))"

section \<open>Enrichment\<close>

text \<open>
  \<^verbatim>\<open>x or y\<close> on optional floats: \<open>x\<close> when it is true in a condition, else \<open>y\<close>.
  \<^verbatim>\<open>None\<close> and a zero are not true.
\<close>

definition float_or :: "pyfloat option \<Rightarrow> pyfloat option \<Rightarrow> pyfloat option" where
  "float_or x y = (case x of None \<Rightarrow> y | Some v \<Rightarrow> if float_truthy v then Some v else y)"

definition str_truthy :: "string option \<Rightarrow> bool" where
  "str_truthy x = (case x of None \<Rightarrow> False | Some s \<Rightarrow> s \<noteq> [])"

text \<open>
  \<^verbatim>\<open>time.sleep(d)\<close> returns after a while or raises; only the raising is modelled:
  \<^verbatim>\<open>ValueError\<close> for a negative number and for NaN, \<^verbatim>\<open>OverflowError\<close> for a number of
  seconds whose nanoseconds do not fit 63 bits.
\<close>

fun sleep :: "pyfloat \<Rightarrow> error option" where
  "sleep (Finite q) =
     (if q < 0 then Some ValueError
      else if 2 ^ 63 \<le> q * 1000000000 then Some OverflowError
      else None)"
| "sleep (Infinity neg) = (if neg then Some ValueError else Some OverflowError)"
| "sleep NaN = Some ValueError"

text \<open>
  \<open>worker\<close> updates the dictionary it is given and returns it; here it returns the
  updated record with the three new keys.
\<close>

definition worker ::
  "(string \<Rightarrow> get_outcome) \<Rightarrow> pyfloat \<Rightarrow> listing \<Rightarrow> string list \<Rightarrow> (error + enriched) \<times> string list"
where
  "worker get delay rec err =
     (case (case Hospital_Page_URL rec of
              None \<Rightarrow> (Inr (None, None, None, None), err)
            | Some url \<Rightarrow>
                if url = [] then (Inr (None, None, None, None), err)
                else
                  (case parse_beds_and_coords_from_hospital get url err of
                     (Inl e, err') \<Rightarrow> (Inl e, err')
                   | (Inr found, err') \<Rightarrow>
                       (case (if float_truthy delay then sleep delay else None) of
                          Some e \<Rightarrow> (Inl e, err')
                        | None \<Rightarrow> (Inr found, err')))) of
        (Inl e, err') \<Rightarrow> (Inl e, err')
      | (Inr (beds_raw, beds_int, lat2, lon2), err') \<Rightarrow>
          (Inr \<lparr>Health_Authority = Health_Authority rec,
                Facility_Name = Facility_Name rec,
                Location_City = Location_City rec,
                Latitude = float_or (Latitude rec) lat2,
                Longitude = float_or (Longitude rec) lon2,
                Hospital_Page_URL = Hospital_Page_URL rec,
                Beds_Raw = beds_raw,
                Beds = beds_int,
                Beds_Source_URL = (if str_truthy beds_raw then Hospital_Page_URL rec else None)\<rparr>,
           err'))"

text \<open>
  The pool hands the rows to \<open>worker\<close> and the results are collected in the order of the
  rows. The workers are run here one after the other, in that order, so the warnings of
  different rows are not interleaved; an exception from a worker ends the collection.
\<close>

fun map_workers ::
  "(string \<Rightarrow> get_outcome) \<Rightarrow> pyfloat \<Rightarrow> listing list \<Rightarrow> string list
     \<Rightarrow> (error + enriched list) \<times> string list"
where
  "map_workers get delay [] err = (Inr [], err)"
| "map_workers get delay (rec # rows) err =
     (case worker get delay rec err of
        (Inl e, err') \<Rightarrow> (Inl e, err')
      | (Inr result, err') \<Rightarrow>
          (case map_workers get delay rows err' of
             (Inl e, err'') \<Rightarrow> (Inl e, err'')
           | (Inr out, err'') \<Rightarrow> (Inr (result # out), err'')))"

text \<open>A pool of no workers or fewer is refused with \<^verbatim>\<open>ValueError\<close>.\<close>

definition enrich_with_hospital_pages ::
  "(string \<Rightarrow> get_outcome) \<Rightarrow> listing list \<Rightarrow> int \<Rightarrow> pyfloat \<Rightarrow> string list
     \<Rightarrow> (error + enriched list) \<times> string list"
where
  "enrich_with_hospital_pages get rows max_workers delay err =
     (if max_workers \<le> 0 then (Inl ValueError, err)
      else map_workers get delay rows err)"

section \<open>The dataset\<close>

text \<open>
  The data frame is the list of its rows; the columns are the nine keys in their fixed
  order. \<^verbatim>\<open>drop_duplicates\<close> keeps, for each value of the key columns, the first row that
  has it: a row is dropped when its key was seen before. \<^verbatim>\<open>sort_values\<close> on two columns
  of strings is a stable sort by the pair, strings compared code point by code point.
\<close>

fun drop_seen :: "('a \<Rightarrow> 'k) \<Rightarrow> 'k list \<Rightarrow> 'a list \<Rightarrow> 'a list" where
  "drop_seen key seen [] = []"
| "drop_seen key seen (r # rs) =
     (if key r \<in> set seen then drop_seen key seen rs
      else r # drop_seen key (key r # seen) rs)"

definition drop_duplicates :: "('a \<Rightarrow> 'k) \<Rightarrow> 'a list \<Rightarrow> 'a list" where
  "drop_duplicates key rows = drop_seen key [] rows"

definition sort_values :: "('a \<Rightarrow> 'k::linorder) \<Rightarrow> 'a list \<Rightarrow> 'a list" where
  "sort_values key rows = sort_key key rows"

definition name_city :: "enriched \<Rightarrow> string \<times> string" where
  "name_city r = (Facility_Name r, Location_City r)"

definition authority_name :: "enriched \<Rightarrow> string \<times> string" where
  "authority_name r = (Health_Authority r, Facility_Name r)"

text \<open>The frame that \<open>main\<close> builds from the enriched rows and writes out.\<close>

definition assemble :: "enriched list \<Rightarrow> enriched list" where
  "assemble full_rows = sort_values authority_name (drop_duplicates name_city full_rows)"

definition COLUMNS :: "string list" where
  "COLUMNS =
     [''Health Authority'', ''Facility Name'', ''Location City'', ''Latitude'', ''Longitude'',
      ''Beds'', ''Beds Raw'', ''Beds Source URL'', ''Hospital Page URL'']"

text \<open>
  A written file is kept as its header and its rows: the text of the file is a function of
  the two. Failures of the file system are not modelled.
\<close>

datatype csv = Csv "string list" "enriched list"

definition to_csv :: "enriched list \<Rightarrow> csv" where
  "to_csv df = Csv COLUMNS df"

section \<open>The run\<close>

record args =
  out :: string
  workers :: int
  delay :: pyfloat

record world =
  stderr :: "string list"
  stdout :: "string list"
  files :: "string \<rightharpoonup> csv"

text \<open>
  How the run ends: \<^verbatim>\<open>sys.exit(n)\<close>, or returning from \<open>main\<close>, which is \<open>Exit 0\<close>, or
  an exception that nothing catches. \<open>main\<close> is modelled from its first request on: it
  takes the arguments as \<^verbatim>\<open>parse_args\<close> returns them. A command line that does not parse
  ends the program before that, with the exit code of the argument parser.
\<close>

datatype exit = Exit nat | Uncaught error

definition main :: "env \<Rightarrow> args \<Rightarrow> world \<Rightarrow> exit \<times> world" where
  "main e a w =
     (case fetch (http_get e) LIST_URL (stderr w) of
        (Inl x, err) \<Rightarrow> (Uncaught x, w\<lparr>stderr := err\<rparr>)
      | (Inr list_resp, err) \<Rightarrow>
          (case (case list_resp of
                   None \<Rightarrow> None
                 | Some r \<Rightarrow> if response_truthy r then Some r else None) of
             None \<Rightarrow>
               (Exit 2,
                w\<lparr>stderr := err @ [''Failed to load list page. Aborting.'' @ [CHR 0x0A]]\<rparr>)
           | Some r \<Rightarrow>
               (case parse_list_tables (urljoin e) (body r) of
                  [] \<Rightarrow>
                    (Exit 3,
                     w\<lparr>stderr :=
                          err @ [''No tables parsed from list page. Aborting.'' @ [CHR 0x0A]]\<rparr>)
                | row # rows \<Rightarrow>
                    (case enrich_with_hospital_pages (http_get e) (row # rows)
                            (workers a) (delay a) err of
                       (Inl x, err') \<Rightarrow> (Uncaught x, w\<lparr>stderr := err'\<rparr>)
                     | (Inr full_rows, err') \<Rightarrow>
                         (Exit 0,
                          w\<lparr>stderr := err',
                            files := (files w)(out a \<mapsto> to_csv (assemble full_rows)),
                            stdout :=
                              stdout w
                              @ [''Wrote '' @ out a @ '' with ''
                                 @ show_nat_grouped (length (assemble full_rows))
                                 @ '' rows.'' @ [CHR 0x0A]]\<rparr>)))))"

section \<open>The notions of the specification\<close>

text \<open>
  The extractor as the specification words it: three strategies, each giving a pair or
  nothing, tried in order. \<open>geotag_strategy\<close> reads the first two pieces of the geotag
  text, \<open>lat_lon_strategy\<close> the two separate elements, \<open>maplink_strategy\<close> the two
  attributes of the map link; a strategy gives nothing when its markup is missing or
  either number does not parse.
\<close>

definition tokens :: "string \<Rightarrow> string list" where
  "tokens txt = filter (\<lambda>p. p \<noteq> []) (re_split (clean_text txt))"

definition parse_pair :: "string \<Rightarrow> string \<Rightarrow> (pyfloat \<times> pyfloat) option" where
  "parse_pair la lo =
     (case py_float la of
        None \<Rightarrow> None
      | Some a \<Rightarrow> (case py_float lo of None \<Rightarrow> None | Some b \<Rightarrow> Some (a, b)))"

definition geotag_strategy :: "'a node_scheme \<Rightarrow> (pyfloat \<times> pyfloat) option" where
  "geotag_strategy node =
     (case sel_geo node of
        None \<Rightarrow> None
      | Some geo \<Rightarrow> (case tokens geo of p0 # p1 # ps \<Rightarrow> parse_pair p0 p1 | _ \<Rightarrow> None))"

definition lat_lon_strategy :: "'a node_scheme \<Rightarrow> (pyfloat \<times> pyfloat) option" where
  "lat_lon_strategy node =
     (case sel_latitude node of
        None \<Rightarrow> None
      | Some la \<Rightarrow>
          (case sel_longitude node of
             None \<Rightarrow> None
           | Some lo \<Rightarrow> parse_pair (strip la) (strip lo)))"

definition maplink_strategy :: "'a node_scheme \<Rightarrow> (pyfloat \<times> pyfloat) option" where
  "maplink_strategy node =
     (case sel_maplink node of
        Some (Some la, Some lo) \<Rightarrow> parse_pair la lo
      | _ \<Rightarrow> None)"

fun first_success :: "('a \<Rightarrow> 'b option) list \<Rightarrow> 'a \<Rightarrow> 'b option" where
  "first_success [] x = None"
| "first_success (s # ss) x = (case s x of Some y \<Rightarrow> Some y | None \<Rightarrow> first_success ss x)"

definition coords_of :: "'a node_scheme \<Rightarrow> coords" where
  "coords_of node =
     (case first_success [geotag_strategy, lat_lon_strategy, maplink_strategy] node of
        Some (a, b) \<Rightarrow> (Some a, Some b)
      | None \<Rightarrow> (None, None))"


text \<open>
  A row of the infobox counts as a capacity row when it has both cells and its label,
  normalized and in lower case, starts with the keyword.
\<close>

definition beds_label :: "info_row \<Rightarrow> bool" where
  "beds_label tr =
     (case th_text tr of
        None \<Rightarrow> False
      | Some th \<Rightarrow>
          (case td_text tr of
             None \<Rightarrow> False
           | Some td \<Rightarrow> startswith (lower (clean_text th)) ''beds''))"

definition only_digits :: "string \<Rightarrow> bool" where
  "only_digits s = list_all is_digit s"

definition no_digit :: "string \<Rightarrow> bool" where
  "no_digit s = list_all (\<lambda>c. \<not> is_digit c) s"

text \<open>
  The primary source is unreachable when the request for it returns a status other than
  200 or fails in transport.
\<close>

definition unreachable :: "(string \<Rightarrow> get_outcome) \<Rightarrow> string \<Rightarrow> bool" where
  "unreachable get url =
     (case get url of
        Returns r \<Rightarrow> status_code r \<noteq> 200
      | Raises_RequestException m \<Rightarrow> True
      | Raises x \<Rightarrow> False)"

definition summary :: "string \<Rightarrow> nat \<Rightarrow> string" where
  "summary path n = ''Wrote '' @ path @ '' with '' @ show_nat_grouped n @ '' rows.'' @ [CHR 0x0A]"

section \<open>Example inputs\<close>

subsection \<open>Rows for the assembler\<close>

definition hospital :: "string \<Rightarrow> string \<Rightarrow> string \<Rightarrow> int option \<Rightarrow> enriched" where
  "hospital authority name city beds =
     \<lparr>Health_Authority = authority, Facility_Name = name, Location_City = city,
      Latitude = None, Longitude = None, Hospital_Page_URL = None,
      Beds_Raw = None, Beds = beds, Beds_Source_URL = None\<rparr>"

text \<open>Three rows, the third with the name and city of the first.\<close>

definition rows_with_duplicate :: "enriched list" where
  "rows_with_duplicate =
     [hospital ''Island Health'' ''Victoria General'' ''Victoria'' (Some 344),
      hospital ''Fraser Health'' ''Surrey Memorial'' ''Surrey'' None,
      hospital ''Fraser Health'' ''Victoria General'' ''Victoria'' (Some 12)]"

text \<open>Two rows with the same authority and name in different cities.\<close>

definition same_name_rows :: "enriched list" where
  "same_name_rows =
     [hospital ''Fraser Health'' ''General Hospital'' ''Surrey'' None,
      hospital ''Fraser Health'' ''General Hospital'' ''Langley'' None]"

text \<open>Three rows that differ in name, in city and in (authority, name).\<close>

definition three_rows :: "enriched list" where
  "three_rows =
     [hospital ''Island Health'' ''Victoria General'' ''Victoria'' (Some 344),
      hospital ''Fraser Health'' ''Surrey Memorial'' ''Surrey'' None,
      hospital ''Fraser Health'' ''Abbotsford Regional'' ''Abbotsford'' (Some 300)]"

subsection \<open>Markup with coordinates\<close>




subsection \<open>Infobox rows and detail pages\<close>

definition location_row :: info_row where
  "location_row = \<lparr>th_text = Some ''Location'', td_text = Some ''Vancouver''\<rparr>"

definition beds_2020_row :: info_row where
  "beds_2020_row = \<lparr>th_text = Some ''Beds (2020)'', td_text = Some ''312 (acute)''\<rparr>"

definition second_beds_row :: info_row where
  "second_beds_row = \<lparr>th_text = Some ''Beds'', td_text = Some ''999''\<rparr>"

definition unknown_beds_row :: info_row where
  "unknown_beds_row = \<lparr>th_text = Some ''Beds'', td_text = Some ''unknown''\<rparr>"

text \<open>A row with the capacity label and no value cell.\<close>

definition label_only_row :: info_row where
  "label_only_row = \<lparr>th_text = Some ''Beds'', td_text = None\<rparr>"

text \<open>A capacity row whose value has a line break between the number and the note.\<close>

definition two_line_row :: info_row where
  "two_line_row =
     \<lparr>th_text = Some ''Beds'', td_text = Some (''312'' @ [CHR 0x0A] @ ''(acute)'')\<rparr>"

definition empty_soup :: soup where
  "empty_soup =
     \<lparr>sel_geo = None, sel_latitude = None, sel_longitude = None, sel_maplink = None,
      infobox = None, elements = []\<rparr>"

text \<open>
  A detail page with a geotag, a map link that disagrees with it, and an infobox with two
  capacity rows after a row of another kind.
\<close>

definition general_page :: soup where
  "general_page =
     \<lparr>sel_geo = Some ''49.2; -123.1'', sel_latitude = None, sel_longitude = None,
      sel_maplink = Some (Some ''48.0'', Some ''-120.0''),
      infobox = Some [location_row, beds_2020_row, second_beds_row],
      elements = []\<rparr>"

text \<open>
  Detail pages whose capacity row holds text without a number, and an empty value cell.
\<close>

definition unknown_beds_page :: soup where
  "unknown_beds_page =
     empty_soup\<lparr>infobox := Some [unknown_beds_row]\<rparr>"

definition blank_beds_page :: soup where
  "blank_beds_page =
     empty_soup\<lparr>infobox := Some [\<lparr>th_text = Some ''Beds'', td_text = Some []\<rparr>]\<rparr>"

subsection \<open>A listing page\<close>

text \<open>
  One section with a table of a header row and two facilities, the first linked to its
  page, the second with a geotag on the equator and no link.
\<close>

definition header_row :: table_row where
  "header_row =
     \<lparr>sel_geo = None, sel_latitude = None, sel_longitude = None, sel_maplink = None,
      cells = [\<lparr>cell_tag = TH, cell_text = ''Facility'', cell_href = None\<rparr>,
               \<lparr>cell_tag = TH, cell_text = ''Location'', cell_href = None\<rparr>]\<rparr>"

definition victoria_row :: table_row where
  "victoria_row =
     \<lparr>sel_geo = None, sel_latitude = None, sel_longitude = None, sel_maplink = None,
      cells = [\<lparr>cell_tag = TD, cell_text = ''Victoria  General Hospital'',
                cell_href = Some ''/wiki/Victoria_General_Hospital''\<rparr>,
               \<lparr>cell_tag = TD, cell_text = ''Victoria'', cell_href = None\<rparr>]\<rparr>"

definition equator_row :: table_row where
  "equator_row =
     \<lparr>sel_geo = Some ''0; -123.1'', sel_latitude = None, sel_longitude = None,
      sel_maplink = None,
      cells = [\<lparr>cell_tag = TD, cell_text = ''Equator Clinic'', cell_href = None\<rparr>,
               \<lparr>cell_tag = TD, cell_text = ''Tofino'', cell_href = None\<rparr>]\<rparr>"

definition listing_page :: soup where
  "listing_page =
     empty_soup\<lparr>elements :=
       [Heading True ''Island Health[edit]'',
        Table [''wikitable'', ''sortable''] [header_row, victoria_row, equator_row],
        Heading True ''See also[edit]'']\<rparr>"

subsection \<open>A network and a command line\<close>

text \<open>
  The listing URL answers as the first argument says; of the other URLs, three answer 200,
  one 404, one 204, and the rest time out.
\<close>

definition example_get :: "get_outcome \<Rightarrow> string \<Rightarrow> get_outcome" where
  "example_get listing url =
     (if url = LIST_URL then listing
      else if url = ''https://en.wikipedia.org/wiki/Victoria_General_Hospital'' then
        Returns \<lparr>status_code = 200, body = general_page\<rparr>
      else if url = ''https://en.wikipedia.org/wiki/Unknown_Beds'' then
        Returns \<lparr>status_code = 200, body = unknown_beds_page\<rparr>
      else if url = ''https://en.wikipedia.org/wiki/Blank_Beds'' then
        Returns \<lparr>status_code = 200, body = blank_beds_page\<rparr>
      else if url = ''https://en.wikipedia.org/wiki/Moved'' then
        Returns \<lparr>status_code = 404, body = empty_soup\<rparr>
      else if url = ''https://en.wikipedia.org/wiki/Empty'' then
        Returns \<lparr>status_code = 204, body = empty_soup\<rparr>
      else Raises_RequestException ''timed out'')"

definition example_web :: "string \<Rightarrow> get_outcome" where
  "example_web = example_get (Returns \<lparr>status_code = 200, body = listing_page\<rparr>)"

definition example_env :: "get_outcome \<Rightarrow> env" where
  "example_env listing =
     \<lparr>http_get = example_get listing, urljoin = (\<lambda>base href. base @ href)\<rparr>"

definition example_args :: args where
  "example_args = \<lparr>out = ''bc_hospitals_from_wikipedia.csv'', workers = 10, delay = Finite 0\<rparr>"

definition empty_world :: world where
  "empty_world = \<lparr>stderr = [], stdout = [], files = Map.empty\<rparr>"

subsection \<open>Records\<close>

text \<open>A listing record without coordinates, and one on the equator, each linked to a page.\<close>

definition plain_record :: "string \<Rightarrow> listing" where
  "plain_record url =
     \<lparr>Health_Authority = ''Fraser Health'', Facility_Name = ''Surrey Memorial Hospital'',
      Location_City = ''Surrey'', Latitude = None, Longitude = None,
      Hospital_Page_URL = Some url\<rparr>"

definition equator_record :: "string \<Rightarrow> listing" where
  "equator_record url =
     \<lparr>Health_Authority = ''Island Health'', Facility_Name = ''Equator Clinic'',
      Location_City = ''Tofino'', Latitude = Some (Finite 0),
      Longitude = Some (Finite (- (1231 / 10))), Hospital_Page_URL = Some url\<rparr>"

text \<open>An enriched record, written as the listing record it comes from and what changed.\<close>

definition enriched_of ::
  "listing \<Rightarrow> pyfloat option \<Rightarrow> pyfloat option \<Rightarrow> string option \<Rightarrow> int option
     \<Rightarrow> string option \<Rightarrow> enriched"
where
  "enriched_of rec lat lon raw beds source =
     \<lparr>Health_Authority = Health_Authority rec, Facility_Name = Facility_Name rec,
      Location_City = Location_City rec, Latitude = lat, Longitude = lon,
      Hospital_Page_URL = Hospital_Page_URL rec,
      Beds_Raw = raw, Beds = beds, Beds_Source_URL = source\<rparr>"

text \<open>
  The two records that the listing page above gives, and what enrichment over the network
  above makes of them.
\<close>

definition victoria_listing :: listing where
  "victoria_listing =
     \<lparr>Health_Authority = ''Island Health'', Facility_Name = ''Victoria General Hospital'',
      Location_City = ''Victoria'', Latitude = None, Longitude = None,
      Hospital_Page_URL = Some ''https://en.wikipedia.org/wiki/Victoria_General_Hospital''\<rparr>"

definition equator_listing :: listing where
  "equator_listing =
     \<lparr>Health_Authority = ''Island Health'', Facility_Name = ''Equator Clinic'',
      Location_City = ''Tofino'', Latitude = Some (Finite 0),
      Longitude = Some (Finite (- (1231 / 10))), Hospital_Page_URL = None\<rparr>"

definition victoria_enriched :: enriched where
  "victoria_enriched =
     enriched_of victoria_listing (Some (Finite (246 / 5))) (Some (Finite (- (1231 / 10))))
       (Some ''312 (acute)'') (Some 312)
       (Some ''https://en.wikipedia.org/wiki/Victoria_General_Hospital'')"

definition equator_enriched :: enriched where
  "equator_enriched =
     enriched_of equator_listing None (Some (Finite (- (1231 / 10)))) None None None"

section \<open>Deduplication\<close>

lemma drop_seen_keys: "key ` set (drop_seen key seen rs) = key ` set rs - set seen"
  by (induction rs arbitrary: seen) auto

lemma drop_seen_subset: "set (drop_seen key seen rs) \<subseteq> set rs"
  by (induction rs arbitrary: seen) auto

lemma drop_seen_distinct: "distinct (map key (drop_seen key seen rs))"
proof (induction rs arbitrary: seen)
  case Nil
  show ?case by simp
next
  case (Cons r rs)
  have "key r \<notin> key ` set (drop_seen key (key r # seen) rs)"
    by (simp add: drop_seen_keys)
  with Cons show ?case by simp
qed

lemma drop_seen_first:
  "r \<in> set (drop_seen key seen rs) \<Longrightarrow> find (\<lambda>x. key x = key r) rs = Some r"
proof (induction rs arbitrary: seen)
  case Nil
  then show ?case by simp
next
  case (Cons a rs)
  show ?case
  proof (cases "key a \<in> set seen")
    case True
    with Cons.prems have mem: "r \<in> set (drop_seen key seen rs)" by simp
    then have "key r \<in> key ` set rs - set seen"
      using drop_seen_keys [of key seen rs] by blast
    with True have "key a \<noteq> key r" by auto
    with Cons.IH [OF mem] show ?thesis by simp
  next
    case False
    with Cons.prems have "r = a \<or> r \<in> set (drop_seen key (key a # seen) rs)" by simp
    then show ?thesis
    proof
      assume "r = a"
      then show ?thesis by simp
    next
      assume mem: "r \<in> set (drop_seen key (key a # seen) rs)"
      then have "key r \<in> key ` set rs - set (key a # seen)"
        using drop_seen_keys [of key "key a # seen" rs] by blast
      then have "key a \<noteq> key r" by auto
      with Cons.IH [OF mem] show ?thesis by simp
    qed
  qed
qed

lemma assemble_rows_with_duplicate:
  "assemble rows_with_duplicate =
     [hospital ''Fraser Health'' ''Surrey Memorial'' ''Surrey'' None,
      hospital ''Island Health'' ''Victoria General'' ''Victoria'' (Some 344)]"
  by (simp add: assemble_def sort_values_def drop_duplicates_def name_city_def
      authority_name_def hospital_def rows_with_duplicate_def)

text \<open>
  C4. The assembled dataset has no two rows with the same (name, city) pair, compared as
  strings are, letter case included; every pair of the input is still there; and each row
  of the dataset is the first row of the input with its pair, all fields as that row has
  them.
\<close>

theorem assemble_no_duplicates_first_kept:
  "distinct (map name_city (assemble rows))
   \<and> name_city ` set (assemble rows) = name_city ` set rows
   \<and> (\<forall>r \<in> set (assemble rows). find (\<lambda>x. name_city x = name_city r) rows = Some r)"
proof (intro conjI ballI)
  have "distinct (map name_city (drop_duplicates name_city rows))"
    by (simp add: drop_duplicates_def drop_seen_distinct)
  then show "distinct (map name_city (assemble rows))"
    unfolding assemble_def sort_values_def
    by (metis distinct_map distinct_sort set_sort)
next
  show "name_city ` set (assemble rows) = name_city ` set rows"
    by (simp add: assemble_def sort_values_def drop_duplicates_def drop_seen_keys)
next
  fix r assume "r \<in> set (assemble rows)"
  then have "r \<in> set (drop_seen name_city [] rows)"
    by (simp add: assemble_def sort_values_def drop_duplicates_def)
  then show "find (\<lambda>x. name_city x = name_city r) rows = Some r"
    by (rule drop_seen_first)
qed

theorem assemble_no_duplicates_first_kept_witness:
  "hospital ''Island Health'' ''Victoria General'' ''Victoria'' (Some 344)
     \<in> set (assemble rows_with_duplicate)
   \<and> find (\<lambda>x. name_city x
                 = name_city (hospital ''Island Health'' ''Victoria General'' ''Victoria'' (Some 344)))
        rows_with_duplicate
     = Some (hospital ''Island Health'' ''Victoria General'' ''Victoria'' (Some 344))
   \<and> distinct (map name_city (assemble rows_with_duplicate))"
proof -
  have mem: "hospital ''Island Health'' ''Victoria General'' ''Victoria'' (Some 344)
               \<in> set (assemble rows_with_duplicate)"
    by (simp add: assemble_rows_with_duplicate)
  with assemble_no_duplicates_first_kept [of rows_with_duplicate] show ?thesis
    by blast
qed

section \<open>Sorting\<close>

lemma drop_duplicates_inj:
  assumes "inj_on key (set rows)"
  shows "set (drop_duplicates key rows) = set rows" and "distinct (drop_duplicates key rows)"
proof -
  let ?d = "drop_duplicates key rows"
  have sub: "set ?d \<subseteq> set rows"
    by (simp add: drop_duplicates_def drop_seen_subset)
  have keys: "key ` set ?d = key ` set rows"
    by (simp add: drop_duplicates_def drop_seen_keys)
  show "set ?d = set rows"
  proof
    show "set ?d \<subseteq> set rows" by (rule sub)
    show "set rows \<subseteq> set ?d"
    proof
      fix r assume r: "r \<in> set rows"
      then have "key r \<in> key ` set ?d" using keys by blast
      then obtain r' where r': "r' \<in> set ?d" "key r' = key r" by auto
      with sub r assms have "r' = r" by (auto dest: inj_onD)
      with r' show "r \<in> set ?d" by simp
    qed
  qed
  have "distinct (map key ?d)"
    by (simp add: drop_duplicates_def drop_seen_distinct)
  then show "distinct ?d" by (simp add: distinct_map)
qed

lemma assemble_permutation:
  assumes nc: "inj_on name_city (set rows)"
    and an: "inj_on authority_name (set rows)"
    and perm: "mset rows' = mset rows"
  shows "assemble rows' = assemble rows"
proof -
  have sets: "set rows' = set rows" using perm by (rule mset_eq_setD)
  let ?d = "drop_duplicates name_city rows" and ?d' = "drop_duplicates name_city rows'"
  have d: "set ?d = set rows" "distinct ?d" using drop_duplicates_inj [OF nc] by simp_all
  have d': "set ?d' = set rows" "distinct ?d'"
    using drop_duplicates_inj [of name_city rows'] nc sets by simp_all
  have m: "mset ?d' = mset ?d"
    using d d' set_eq_iff_mset_eq_distinct [of ?d' ?d] by simp
  have "sort_key authority_name ?d' = sort_key authority_name ?d"
  proof (rule sort_key_inj_key_eq)
    show "mset ?d' = mset (sort_key authority_name ?d)" using m by simp
    show "inj_on authority_name (set ?d')" using an d' by simp
    show "sorted (map authority_name (sort_key authority_name ?d))" by simp
  qed
  then show ?thesis by (simp add: assemble_def sort_values_def)
qed

text \<open>
  C3, as amended. The rows of the assembled dataset are in ascending order of
  (authority, name); rows with the same (authority, name) keep the order they have after
  deduplication, so the sort is stable; and when no two different rows of the input agree
  on (name, city) or on (authority, name), every permutation of the input gives the same
  rows in the same order, hence the same file.
\<close>

theorem assemble_sorted_stable:
  "sorted (map authority_name (assemble rows))
   \<and> filter (\<lambda>r. authority_name r = k) (assemble rows)
       = filter (\<lambda>r. authority_name r = k) (drop_duplicates name_city rows)
   \<and> (inj_on name_city (set rows) \<and> inj_on authority_name (set rows) \<and> mset rows' = mset rows
        \<longrightarrow> to_csv (assemble rows') = to_csv (assemble rows))"
proof (intro conjI impI)
  show "sorted (map authority_name (assemble rows))"
    by (simp add: assemble_def sort_values_def)
  show "filter (\<lambda>r. authority_name r = k) (assemble rows)
       = filter (\<lambda>r. authority_name r = k) (drop_duplicates name_city rows)"
    by (simp add: assemble_def sort_values_def sort_key_stable)
next
  assume "inj_on name_city (set rows) \<and> inj_on authority_name (set rows) \<and> mset rows' = mset rows"
  then have "assemble rows' = assemble rows" by (simp add: assemble_permutation)
  then show "to_csv (assemble rows') = to_csv (assemble rows)" by simp
qed

theorem assemble_sorted_stable_witness:
  "inj_on name_city (set three_rows) \<and> inj_on authority_name (set three_rows)
   \<and> mset (rev three_rows) = mset three_rows
   \<and> to_csv (assemble (rev three_rows)) = to_csv (assemble three_rows)"
proof -
  have 1: "inj_on name_city (set three_rows)"
    by (simp add: three_rows_def hospital_def name_city_def)
  have 2: "inj_on authority_name (set three_rows)"
    by (simp add: three_rows_def hospital_def authority_name_def)
  have 3: "mset (rev three_rows) = mset three_rows" by simp
  from 1 2 3 assemble_sorted_stable [of three_rows k "rev three_rows"] show ?thesis by blast
qed

text \<open>
  The two rows of \<open>same_name_rows\<close> have equal sort keys, so the stable sort leaves them
  in the order of the input, and the reversed input gives a different file.
\<close>

theorem assemble_permutation_counterexample:
  "mset (rev same_name_rows) = mset same_name_rows
   \<and> to_csv (assemble (rev same_name_rows)) \<noteq> to_csv (assemble same_name_rows)"
  by (simp add: same_name_rows_def assemble_def sort_values_def drop_duplicates_def
      name_city_def authority_name_def hospital_def to_csv_def)

section \<open>Evaluating floats\<close>

lemma round_double_moderate:
  "1 / 1000000 \<le> \<bar>q\<bar> \<Longrightarrow> \<bar>q\<bar> \<le> 1000000 \<Longrightarrow> round_double q = Finite q"
proof -
  assume a: "1 / 1000000 \<le> \<bar>q\<bar>" and b: "\<bar>q\<bar> \<le> 1000000"
  have "(1::rat) / 2 ^ 1075 < 1 / 1000000" by simp
  with a have 1: "\<not> \<bar>q\<bar> \<le> 1 / 2 ^ 1075" by linarith
  have "(1000000::rat) < 2 ^ 1024 - 2 ^ 970" by simp
  with b have 2: "\<not> 2 ^ 1024 - 2 ^ 970 \<le> \<bar>q\<bar>" by linarith
  from 1 2 show ?thesis by (simp add: round_double_def)
qed

lemma py_float_49_2: "py_float ''49.2'' = Some (Finite (246 / 5))"
proof -
  have "take_sign (strip ''49.2'') = (False, ''49.2'')" by code_simp
  moreover have "lower ''49.2'' = ''49.2''" by code_simp
  moreover have "floatnumber ''49.2'' = Some (246 / 5)" by code_simp
  moreover have "round_double (246 / 5) = Finite (246 / 5)"
    by (rule round_double_moderate) simp_all
  ultimately show ?thesis by (simp add: py_float_def)
qed

lemma py_float_m123_1: "py_float ''-123.1'' = Some (Finite (- (1231 / 10)))"
proof -
  have "take_sign (strip ''-123.1'') = (True, ''123.1'')" by code_simp
  moreover have "lower ''123.1'' = ''123.1''" by code_simp
  moreover have "floatnumber ''123.1'' = Some (1231 / 10)" by code_simp
  moreover have "round_double (- (1231 / 10)) = Finite (- (1231 / 10))"
    by (rule round_double_moderate) simp_all
  ultimately show ?thesis by (simp add: py_float_def)
qed



lemma py_float_0: "py_float ''0'' = Some (Finite 0)"
proof -
  have "take_sign (strip ''0'') = (False, ''0'')" by code_simp
  moreover have "lower ''0'' = ''0''" by code_simp
  moreover have "floatnumber ''0'' = Some 0" by code_simp
  moreover have "round_double 0 = Finite 0" by (simp add: round_double_def)
  ultimately show ?thesis by (simp add: py_float_def)
qed


lemma tokens_pair: "tokens ''49.2; -123.1'' = [''49.2'', ''-123.1'']"
  by code_simp

lemma tokens_equator: "tokens ''0; -123.1'' = [''0'', ''-123.1'']"
  by code_simp

section \<open>Coordinate extraction\<close>

lemma maplink_block:
  "coords_from_maplink node =
     (case maplink_strategy node of Some (a, b) \<Rightarrow> (Some a, Some b) | None \<Rightarrow> (None, None))"
  by (simp add: coords_from_maplink_def maplink_strategy_def parse_pair_def
      split: option.splits prod.splits)

lemma lat_lon_block:
  "coords_from_lat_lon node =
     (case lat_lon_strategy node of
        Some (a, b) \<Rightarrow> (Some a, Some b)
      | None \<Rightarrow> coords_from_maplink node)"
  by (simp add: coords_from_lat_lon_def lat_lon_strategy_def parse_pair_def
      split: option.splits)

lemma geotag_block:
  "extract_coords_from_node node =
     (case geotag_strategy node of
        Some (a, b) \<Rightarrow> (Some a, Some b)
      | None \<Rightarrow> coords_from_lat_lon node)"
  by (simp add: extract_coords_from_node_def geotag_strategy_def parse_pair_def tokens_def
      split: option.splits list.splits)

lemma extract_coords_refines: "extract_coords_from_node node = coords_of node"
  by (simp add: geotag_block lat_lon_block maplink_block coords_of_def split: option.splits)

text \<open>The extractor returns two numbers or two absences.\<close>

lemma extract_coords_paired:
  "extract_coords_from_node node = (lat, lon) \<Longrightarrow> (lat = None) = (lon = None)"
  by (auto simp: extract_coords_refines coords_of_def split: option.splits)

lemma geotag_general_page:
  "geotag_strategy general_page = Some (Finite (246 / 5), Finite (- (1231 / 10)))"
  by (simp add: geotag_strategy_def general_page_def tokens_pair parse_pair_def
      py_float_49_2 py_float_m123_1)










section \<open>Fetching\<close>

lemma show_nat_404: "show_nat 404 = ''404''"
  by code_simp

lemma show_nat_204: "show_nat 204 = ''204''"
  by code_simp

text \<open>
  C6, as amended. \<open>fetch\<close> returns the response exactly when the request returns one with
  status 200. On any other status, and on a request that raises a \<^verbatim>\<open>RequestException\<close>
  as every transport failure does, it appends one warning to the diagnostic stream and
  returns the absent value; in neither case does an exception leave it.
\<close>

theorem fetch_only_200:
  "(get url = Returns r \<and> status_code r = 200 \<longrightarrow> fetch get url err = (Inr (Some r), err))
   \<and> (get url = Returns r \<and> status_code r \<noteq> 200 \<longrightarrow>
        fetch get url err = (Inr None, err @ [warn url (show_nat (status_code r))]))
   \<and> (get url = Raises_RequestException m \<longrightarrow>
        fetch get url err = (Inr None, err @ [warn url m]))
   \<and> ((\<exists>r'. fst (fetch get url err) = Inr (Some r'))
        \<longleftrightarrow> (\<exists>r'. get url = Returns r' \<and> status_code r' = 200))"
  by (auto simp: fetch_def split: get_outcome.splits)

theorem fetch_only_200_witness:
  "fetch example_web ''https://en.wikipedia.org/wiki/Unknown_Beds'' []
     = (Inr (Some \<lparr>status_code = 200, body = unknown_beds_page\<rparr>), [])
   \<and> fetch example_web ''https://en.wikipedia.org/wiki/Moved'' []
     = (Inr None, [''[warn] GET https://en.wikipedia.org/wiki/Moved -> 404'' @ [CHR 0x0A]])
   \<and> fetch example_web ''https://en.wikipedia.org/wiki/Gone'' []
     = (Inr None, [''[warn] GET https://en.wikipedia.org/wiki/Gone -> timed out'' @ [CHR 0x0A]])"
  using
    fetch_only_200 [of example_web
      "''https://en.wikipedia.org/wiki/Unknown_Beds''"
      "\<lparr>status_code = 200, body = unknown_beds_page\<rparr>" "[]"]
    fetch_only_200 [of example_web "''https://en.wikipedia.org/wiki/Moved''"
      "\<lparr>status_code = 404, body = empty_soup\<rparr>" "[]"]
    fetch_only_200 [of example_web "''https://en.wikipedia.org/wiki/Gone''"
      _ "[]" "''timed out''"]
  by (simp add: example_web_def example_get_def LIST_URL_def warn_def show_nat_404)

text \<open>Status 204 is a success status, and the response is not returned.\<close>

theorem fetch_204_counterexample:
  "example_web ''https://en.wikipedia.org/wiki/Empty''
     = Returns \<lparr>status_code = 204, body = empty_soup\<rparr>
   \<and> (200::nat) \<le> 204 \<and> (204::nat) < 300
   \<and> fetch example_web ''https://en.wikipedia.org/wiki/Empty'' []
      = (Inr None, [''[warn] GET https://en.wikipedia.org/wiki/Empty -> 204'' @ [CHR 0x0A]])"
  by (simp add: fetch_def example_web_def example_get_def LIST_URL_def warn_def show_nat_204)

section \<open>Capacity\<close>

lemma replace_comma: "replace '','' [] s = filter (\<lambda>c. c \<noteq> CHR '','') s"
  by (induction s) (auto simp: startswith_def)

lemma search_digits_none: "no_digit s \<Longrightarrow> search_digits s = None"
  by (induction s) (auto simp: search_digits_def no_digit_def)

lemma search_digits_skip: "no_digit pre \<Longrightarrow> search_digits (pre @ s) = search_digits s"
  by (induction pre) (auto simp: search_digits_def no_digit_def)

lemma search_digits_run:
  assumes "only_digits ds" and "ds \<noteq> []" and "length ds \<le> 4"
    and "length ds = 4 \<or> (case rest of [] \<Rightarrow> True | c # cs \<Rightarrow> \<not> is_digit c)"
  shows "search_digits (ds @ rest) = Some ds"
proof -
  from assms(2) obtain d ds' where ds: "ds = d # ds'" by (cases ds) auto
  with assms(1) have d: "is_digit d" by (simp add: only_digits_def)
  have all: "\<forall>c \<in> set ds. is_digit c"
    using assms(1) by (simp add: only_digits_def list_all_iff)
  have tw: "takeWhile is_digit (ds @ rest) = ds @ takeWhile is_digit rest"
    using all by (simp add: takeWhile_append2)
  have "take 4 (ds @ takeWhile is_digit rest) = ds"
  proof (cases "length ds = 4")
    case True
    then show ?thesis by simp
  next
    case False
    with assms(4) have "takeWhile is_digit rest = []" by (cases rest) auto
    with assms(3) show ?thesis by simp
  qed
  with tw have "take 4 (takeWhile is_digit (ds @ rest)) = ds" by simp
  with ds d show ?thesis by (simp add: search_digits_def)
qed

lemma scan_no_match: "list_all (\<lambda>tr. \<not> beds_label tr) trs \<Longrightarrow> scan_infobox trs = (None, None)"
  by (induction trs) (auto simp: beds_label_def split: option.splits)

lemma scan_skip:
  "list_all (\<lambda>tr. \<not> beds_label tr) pre \<Longrightarrow> scan_infobox (pre @ trs) = scan_infobox trs"
  by (induction pre) (auto simp: beds_label_def split: option.splits)

lemma scan_match:
  "beds_label tr \<Longrightarrow> td_text tr = Some td \<Longrightarrow>
   scan_infobox (tr # post)
     = (Some (clean_text td),
        map_option (\<lambda>m. int (nat_of_digits m))
          (search_digits (filter (\<lambda>c. c \<noteq> CHR '','') (clean_text td))))"
  by (auto simp: beds_label_def replace_comma split: option.splits)

lemma scan_first:
  assumes "list_all (\<lambda>tr. \<not> beds_label tr) pre" and "beds_label tr" and "td_text tr = Some td"
  shows "scan_infobox (pre @ tr # post)
     = (Some (clean_text td),
        map_option (\<lambda>m. int (nat_of_digits m))
          (search_digits (filter (\<lambda>c. c \<noteq> CHR '','') (clean_text td))))"
proof -
  have "scan_infobox (pre @ tr # post) = scan_infobox (tr # post)"
    using assms(1) by (rule scan_skip)
  also have "\<dots> = (Some (clean_text td),
        map_option (\<lambda>m. int (nat_of_digits m))
          (search_digits (filter (\<lambda>c. c \<noteq> CHR '','') (clean_text td))))"
    using assms(2,3) by (rule scan_match)
  finally show ?thesis .
qed

lemma scan_general_page:
  "scan_infobox [location_row, beds_2020_row, second_beds_row] = (Some ''312 (acute)'', Some 312)"
  by code_simp

lemma scan_unknown: "scan_infobox [unknown_beds_row] = (Some ''unknown'', None)"
  by code_simp

lemma scan_blank: "scan_infobox [\<lparr>th_text = Some ''Beds'', td_text = Some []\<rparr>] = (Some [], None)"
  by code_simp

text \<open>
  C7, as amended. The scan of the infobox takes the first row, of those with a label cell
  and a value cell, whose normalized label starts with the keyword in any letter case;
  rows after it are not looked at. The raw capacity is the whitespace-normalized text of
  the value cell of that row. The capacity is absent when that text, commas removed, has
  no digit, and otherwise is the number written by its first digits, four at most. Without
  such a row both are absent. The label \<^verbatim>\<open>Beds (2020)\<close> with the value
  \<^verbatim>\<open>312 (acute)\<close> gives 312 and \<^verbatim>\<open>312 (acute)\<close>.
\<close>

theorem capacity_first_match:
  "(list_all (\<lambda>tr. \<not> beds_label tr) trs \<longrightarrow> scan_infobox trs = (None, None))
   \<and> (list_all (\<lambda>tr. \<not> beds_label tr) pre \<and> beds_label tr \<and> td_text tr = Some td \<longrightarrow>
        fst (scan_infobox (pre @ tr # post)) = Some (clean_text td)
        \<and> (no_digit (filter (\<lambda>c. c \<noteq> CHR '','') (clean_text td)) \<longrightarrow>
             snd (scan_infobox (pre @ tr # post)) = None)
        \<and> (filter (\<lambda>c. c \<noteq> CHR '','') (clean_text td) = before @ ds @ rest
             \<and> no_digit before \<and> only_digits ds \<and> ds \<noteq> [] \<and> length ds \<le> 4
             \<and> (length ds = 4 \<or> (case rest of [] \<Rightarrow> True | c # cs \<Rightarrow> \<not> is_digit c)) \<longrightarrow>
             snd (scan_infobox (pre @ tr # post)) = Some (int (nat_of_digits ds))))
   \<and> scan_infobox [\<lparr>th_text = Some ''Beds (2020)'', td_text = Some ''312 (acute)''\<rparr>]
       = (Some ''312 (acute)'', Some 312)"
proof (intro conjI impI)
  assume "list_all (\<lambda>tr. \<not> beds_label tr) trs"
  then show "scan_infobox trs = (None, None)" by (rule scan_no_match)
next
  assume h: "list_all (\<lambda>tr. \<not> beds_label tr) pre \<and> beds_label tr \<and> td_text tr = Some td"
  then show "fst (scan_infobox (pre @ tr # post)) = Some (clean_text td)"
    by (simp add: scan_first del: scan_infobox.simps)
next
  assume h: "list_all (\<lambda>tr. \<not> beds_label tr) pre \<and> beds_label tr \<and> td_text tr = Some td"
    and n: "no_digit (filter (\<lambda>c. c \<noteq> CHR '','') (clean_text td))"
  from h n show "snd (scan_infobox (pre @ tr # post)) = None"
    by (simp add: scan_first search_digits_none del: scan_infobox.simps)
next
  assume h: "list_all (\<lambda>tr. \<not> beds_label tr) pre \<and> beds_label tr \<and> td_text tr = Some td"
    and r: "filter (\<lambda>c. c \<noteq> CHR '','') (clean_text td) = before @ ds @ rest
             \<and> no_digit before \<and> only_digits ds \<and> ds \<noteq> [] \<and> length ds \<le> 4
             \<and> (length ds = 4 \<or> (case rest of [] \<Rightarrow> True | c # cs \<Rightarrow> \<not> is_digit c))"
  from r have "search_digits (before @ ds @ rest) = Some ds"
    by (simp add: search_digits_skip search_digits_run)
  with h r show "snd (scan_infobox (pre @ tr # post)) = Some (int (nat_of_digits ds))"
    by (simp add: scan_first del: scan_infobox.simps)
next
  show "scan_infobox [\<lparr>th_text = Some ''Beds (2020)'', td_text = Some ''312 (acute)''\<rparr>]
       = (Some ''312 (acute)'', Some 312)"
    by code_simp
qed

theorem capacity_first_match_witness:
  "scan_infobox [location_row] = (None, None)
   \<and> fst (scan_infobox ([location_row] @ beds_2020_row # [second_beds_row])) = Some ''312 (acute)''
   \<and> snd (scan_infobox ([location_row] @ beds_2020_row # [second_beds_row])) = Some 312
   \<and> snd (scan_infobox ([] @ unknown_beds_row # [])) = None"
proof -
  have none: "list_all (\<lambda>tr. \<not> beds_label tr) [location_row]" by code_simp
  have beds: "beds_label beds_2020_row" by code_simp
  have td: "td_text beds_2020_row = Some ''312 (acute)''" by code_simp
  have clean: "clean_text ''312 (acute)'' = ''312 (acute)''" by code_simp
  have run: "filter (\<lambda>c. c \<noteq> CHR '','') ''312 (acute)'' = [] @ ''312'' @ '' (acute)''
      \<and> no_digit [] \<and> only_digits ''312'' \<and> ''312'' \<noteq> [] \<and> length ''312'' \<le> 4
      \<and> (length ''312'' = 4 \<or> (case '' (acute)'' of [] \<Rightarrow> True | c # cs \<Rightarrow> \<not> is_digit c))"
    by code_simp
  have val: "int (nat_of_digits ''312'') = 312" by code_simp
  have unknown: "list_all (\<lambda>tr. \<not> beds_label tr) [] \<and> beds_label unknown_beds_row
      \<and> td_text unknown_beds_row = Some ''unknown''"
    by code_simp
  have nodigit: "no_digit (filter (\<lambda>c. c \<noteq> CHR '','') (clean_text ''unknown''))" by code_simp
  from none beds td clean run val
    capacity_first_match [of "[location_row]" "[location_row]" beds_2020_row "''312 (acute)''"
      "[second_beds_row]" "[]" "''312''" "'' (acute)''"]
  have 1: "scan_infobox [location_row] = (None, None)
      \<and> fst (scan_infobox ([location_row] @ beds_2020_row # [second_beds_row])) = Some ''312 (acute)''
      \<and> snd (scan_infobox ([location_row] @ beds_2020_row # [second_beds_row])) = Some 312"
    by (simp del: scan_infobox.simps)
  from unknown nodigit
    capacity_first_match [of "[]" "[]" unknown_beds_row "''unknown''" "[]"]
  have 2: "snd (scan_infobox ([] @ unknown_beds_row # [])) = None"
    by (simp del: scan_infobox.simps)
  from 1 2 show ?thesis by blast
qed

text \<open>
  The value cell of \<open>two_line_row\<close> holds a line break; the raw capacity recorded holds a
  blank in its place, so it is not the text of the cell. And the first label that starts
  with the keyword need not end the scan: a row with that label and no value cell is
  passed over, and the capacity comes from a later row.
\<close>

theorem capacity_raw_normalized_counterexample:
  "td_text two_line_row = Some (''312'' @ [CHR 0x0A] @ ''(acute)'')
   \<and> scan_infobox [two_line_row] = (Some ''312 (acute)'', Some 312)
   \<and> ''312 (acute)'' \<noteq> ''312'' @ [CHR 0x0A] @ ''(acute)''
   \<and> th_text label_only_row = Some ''Beds''
   \<and> scan_infobox [label_only_row, second_beds_row] = (Some ''999'', Some 999)"
  by code_simp

section \<open>Enriching one record\<close>

lemma extract_coords_general_page:
  "extract_coords_from_node general_page
     = (Some (Finite (246 / 5)), Some (Finite (- (1231 / 10))))"
  by (simp add: geotag_block geotag_general_page)

lemma extract_coords_empty: "extract_coords_from_node empty_soup = (None, None)"
  by (simp add: extract_coords_from_node_def coords_from_lat_lon_def coords_from_maplink_def
      empty_soup_def)

text \<open>What a detail page gives when the request returns status 200.\<close>

lemma parse_beds_200:
  assumes "get url = Returns r" and "status_code r = 200"
  shows "parse_beds_and_coords_from_hospital get url err =
     (Inr (fst (case infobox (body r) of None \<Rightarrow> (None, None) | Some trs \<Rightarrow> scan_infobox trs),
           snd (case infobox (body r) of None \<Rightarrow> (None, None) | Some trs \<Rightarrow> scan_infobox trs),
           fst (extract_coords_from_node (body r)),
           snd (extract_coords_from_node (body r))), err)"
  using assms
  by (simp add: parse_beds_and_coords_from_hospital_def fetch_def response_truthy_def
      split: prod.splits)

text \<open>A failed fetch gives four absences and one warning.\<close>

lemma parse_beds_failed:
  assumes "fetch get url err = (Inr None, err')"
  shows "parse_beds_and_coords_from_hospital get url err = (Inr (None, None, None, None), err')"
  using assms by (simp add: parse_beds_and_coords_from_hospital_def)

lemma worker_no_url:
  assumes "\<not> str_truthy (Hospital_Page_URL rec)"
  shows "worker get d rec err =
     (Inr \<lparr>Health_Authority = Health_Authority rec, Facility_Name = Facility_Name rec,
           Location_City = Location_City rec,
           Latitude = float_or (Latitude rec) None, Longitude = float_or (Longitude rec) None,
           Hospital_Page_URL = Hospital_Page_URL rec,
           Beds_Raw = None, Beds = None, Beds_Source_URL = None\<rparr>, err)"
  using assms by (auto simp: worker_def str_truthy_def split: option.splits)

lemma worker_with_url:
  assumes "Hospital_Page_URL rec = Some url" and "url \<noteq> []"
    and "parse_beds_and_coords_from_hospital get url err
           = (Inr (beds_raw, beds_int, lat2, lon2), err')"
    and "(if float_truthy d then sleep d else None) = None"
  shows "worker get d rec err =
     (Inr \<lparr>Health_Authority = Health_Authority rec, Facility_Name = Facility_Name rec,
           Location_City = Location_City rec,
           Latitude = float_or (Latitude rec) lat2, Longitude = float_or (Longitude rec) lon2,
           Hospital_Page_URL = Some url,
           Beds_Raw = beds_raw, Beds = beds_int,
           Beds_Source_URL = (if str_truthy beds_raw then Some url else None)\<rparr>, err')"
  using assms by (simp add: worker_def)

text \<open>
  Coordinates that are true in a condition survive enrichment, and absent ones are filled
  from the detail page; a zero is neither.
\<close>

lemma float_or_cases:
  "float_or x y = (if x = None \<or> x = Some (Finite 0) then y else x)"
  by (cases x) (auto simp: float_or_def elim: float_truthy.elims)

lemma worker_coordinates:
  assumes "worker get d rec err = (Inr r, err')"
  shows "\<exists>lat2 lon2. Latitude r = float_or (Latitude rec) lat2
                    \<and> Longitude r = float_or (Longitude rec) lon2"
  using assms
  by (auto simp: worker_def split: option.splits if_splits prod.splits sum.splits)

lemma worker_source_url:
  assumes "worker get d rec err = (Inr r, err')"
  shows "(Beds_Source_URL r \<noteq> None) = str_truthy (Beds_Raw r)"
    and "str_truthy (Beds_Raw r) \<Longrightarrow> Beds_Source_URL r = Hospital_Page_URL rec"
  using assms
  by (auto simp: worker_def str_truthy_def parse_beds_and_coords_from_hospital_def
      split: option.splits if_splits prod.splits sum.splits)

text \<open>
  Enrichment keeps a coordinate that is not zero, and fills an absent one from the page.
\<close>

lemma worker_keeps_nonzero:
  assumes "worker get d rec err = (Inr r, err')"
  shows "Latitude rec = Some v \<Longrightarrow> float_truthy v \<Longrightarrow> Latitude r = Some v"
    and "Longitude rec = Some v \<Longrightarrow> float_truthy v \<Longrightarrow> Longitude r = Some v"
  using worker_coordinates [OF assms] by (auto simp: float_or_def)

text \<open>
  When the fetch of the detail page fails, the three capacity fields are absent, the
  section, name, city and link are those of the listing record, and a coordinate is kept
  unless it is zero.
\<close>

lemma worker_failed_fetch:
  assumes "Hospital_Page_URL rec = Some url" and "url \<noteq> []"
    and "fetch get url err = (Inr None, err')"
    and "(if float_truthy d then sleep d else None) = None"
  shows "worker get d rec err =
     (Inr (enriched_of rec (float_or (Latitude rec) None) (float_or (Longitude rec) None)
             None None None), err')"
  using assms parse_beds_failed [of get url err err']
  by (simp add: worker_with_url [where url = url] enriched_of_def str_truthy_def)

lemma web_victoria:
  "example_web ''https://en.wikipedia.org/wiki/Victoria_General_Hospital''
     = Returns \<lparr>status_code = 200, body = general_page\<rparr>"
  by (simp add: example_web_def example_get_def LIST_URL_def)

lemma web_unknown_beds:
  "example_web ''https://en.wikipedia.org/wiki/Unknown_Beds''
     = Returns \<lparr>status_code = 200, body = unknown_beds_page\<rparr>"
  by (simp add: example_web_def example_get_def LIST_URL_def)

lemma web_blank_beds:
  "example_web ''https://en.wikipedia.org/wiki/Blank_Beds''
     = Returns \<lparr>status_code = 200, body = blank_beds_page\<rparr>"
  by (simp add: example_web_def example_get_def LIST_URL_def)

lemma fetch_moved:
  "fetch example_web ''https://en.wikipedia.org/wiki/Moved'' []
     = (Inr None, [''[warn] GET https://en.wikipedia.org/wiki/Moved -> 404'' @ [CHR 0x0A]])"
  by (simp add: fetch_def example_web_def example_get_def LIST_URL_def warn_def show_nat_404)

lemma worker_unknown_beds:
  "worker example_web (Finite 0) (plain_record ''https://en.wikipedia.org/wiki/Unknown_Beds'') []
     = (Inr (enriched_of (plain_record ''https://en.wikipedia.org/wiki/Unknown_Beds'')
               None None (Some ''unknown'') None
               (Some ''https://en.wikipedia.org/wiki/Unknown_Beds'')), [])"
proof -
  have "parse_beds_and_coords_from_hospital example_web
          ''https://en.wikipedia.org/wiki/Unknown_Beds'' []
        = (Inr (Some ''unknown'', None, None, None), [])"
    using web_unknown_beds
      parse_beds_200 [of example_web "''https://en.wikipedia.org/wiki/Unknown_Beds''"
        "\<lparr>status_code = 200, body = unknown_beds_page\<rparr>" "[]"]
    by (simp add: unknown_beds_page_def scan_unknown
        extract_coords_from_node_def coords_from_lat_lon_def coords_from_maplink_def
        empty_soup_def del: scan_infobox.simps)
  then show ?thesis
    by (simp add: worker_with_url [where url = "''https://en.wikipedia.org/wiki/Unknown_Beds''"]
        plain_record_def enriched_of_def float_or_def str_truthy_def)
qed

lemma worker_blank_beds:
  "worker example_web (Finite 0) (plain_record ''https://en.wikipedia.org/wiki/Blank_Beds'') []
     = (Inr (enriched_of (plain_record ''https://en.wikipedia.org/wiki/Blank_Beds'')
               None None (Some []) None None), [])"
proof -
  have "parse_beds_and_coords_from_hospital example_web
          ''https://en.wikipedia.org/wiki/Blank_Beds'' []
        = (Inr (Some [], None, None, None), [])"
    using web_blank_beds
      parse_beds_200 [of example_web "''https://en.wikipedia.org/wiki/Blank_Beds''"
        "\<lparr>status_code = 200, body = blank_beds_page\<rparr>" "[]"]
    by (simp add: blank_beds_page_def scan_blank
        extract_coords_from_node_def coords_from_lat_lon_def coords_from_maplink_def
        empty_soup_def del: scan_infobox.simps)
  then show ?thesis
    by (simp add: worker_with_url [where url = "''https://en.wikipedia.org/wiki/Blank_Beds''"]
        plain_record_def enriched_of_def float_or_def str_truthy_def)
qed

lemma worker_moved_plain:
  "worker example_web (Finite 0) (plain_record ''https://en.wikipedia.org/wiki/Moved'') []
     = (Inr (enriched_of (plain_record ''https://en.wikipedia.org/wiki/Moved'')
               None None None None None),
        [''[warn] GET https://en.wikipedia.org/wiki/Moved -> 404'' @ [CHR 0x0A]])"
  using parse_beds_failed [OF fetch_moved]
  by (simp add: worker_with_url [where url = "''https://en.wikipedia.org/wiki/Moved''"]
      plain_record_def enriched_of_def float_or_def str_truthy_def)

lemma worker_victoria_equator:
  "worker example_web (Finite 0)
     (equator_record ''https://en.wikipedia.org/wiki/Victoria_General_Hospital'') []
     = (Inr (enriched_of
               (equator_record ''https://en.wikipedia.org/wiki/Victoria_General_Hospital'')
               (Some (Finite (246 / 5))) (Some (Finite (- (1231 / 10))))
               (Some ''312 (acute)'') (Some 312)
               (Some ''https://en.wikipedia.org/wiki/Victoria_General_Hospital'')), [])"
proof -
  have "parse_beds_and_coords_from_hospital example_web
          ''https://en.wikipedia.org/wiki/Victoria_General_Hospital'' []
        = (Inr (Some ''312 (acute)'', Some 312, Some (Finite (246 / 5)),
                Some (Finite (- (1231 / 10)))), [])"
    using web_victoria
      parse_beds_200 [of example_web "''https://en.wikipedia.org/wiki/Victoria_General_Hospital''"
        "\<lparr>status_code = 200, body = general_page\<rparr>" "[]"]
    by (simp add: extract_coords_general_page)
      (simp add: general_page_def scan_general_page del: scan_infobox.simps)
  then show ?thesis
    by (simp add: worker_with_url
          [where url = "''https://en.wikipedia.org/wiki/Victoria_General_Hospital''"]
        equator_record_def enriched_of_def float_or_def str_truthy_def)
qed

lemma worker_moved_equator:
  "worker example_web (Finite 0) (equator_record ''https://en.wikipedia.org/wiki/Moved'') []
     = (Inr (enriched_of (equator_record ''https://en.wikipedia.org/wiki/Moved'')
               None (Some (Finite (- (1231 / 10)))) None None None),
        [''[warn] GET https://en.wikipedia.org/wiki/Moved -> 404'' @ [CHR 0x0A]])"
  using parse_beds_failed [OF fetch_moved]
  by (simp add: worker_with_url [where url = "''https://en.wikipedia.org/wiki/Moved''"]
      equator_record_def enriched_of_def float_or_def str_truthy_def)

text \<open>
  C10, as amended. In every enriched record the capacity source URL is present exactly
  when the raw capacity text is present and not empty, and it is then the URL of the
  detail page. So a page whose capacity row holds text without a number still records the
  URL, and a page without a capacity row, or a failed fetch, leaves it absent.
\<close>

theorem source_url_iff_beds_raw:
  "worker get d rec err = (Inr r, err') \<longrightarrow>
     (Beds_Source_URL r \<noteq> None) = str_truthy (Beds_Raw r)
     \<and> (str_truthy (Beds_Raw r) \<longrightarrow> Beds_Source_URL r = Hospital_Page_URL rec)"
  using worker_source_url [of get d rec err r err'] by blast

theorem source_url_iff_beds_raw_witness:
  "worker example_web (Finite 0) (plain_record ''https://en.wikipedia.org/wiki/Unknown_Beds'') []
     = (Inr (enriched_of (plain_record ''https://en.wikipedia.org/wiki/Unknown_Beds'')
               None None (Some ''unknown'') None
               (Some ''https://en.wikipedia.org/wiki/Unknown_Beds'')), [])
   \<and> str_truthy (Some ''unknown'')
   \<and> Beds_Source_URL
        (enriched_of (plain_record ''https://en.wikipedia.org/wiki/Unknown_Beds'')
               None None (Some ''unknown'') None
               (Some ''https://en.wikipedia.org/wiki/Unknown_Beds''))
      = Hospital_Page_URL (plain_record ''https://en.wikipedia.org/wiki/Unknown_Beds'')"
proof -
  let ?rec = "plain_record ''https://en.wikipedia.org/wiki/Unknown_Beds''"
  let ?r = "enriched_of ?rec None None (Some ''unknown'') None
              (Some ''https://en.wikipedia.org/wiki/Unknown_Beds'')"
  have w: "worker example_web (Finite 0) ?rec [] = (Inr ?r, [])"
    by (rule worker_unknown_beds)
  have t: "str_truthy (Beds_Raw ?r)"
    by (simp add: enriched_of_def str_truthy_def)
  from w t source_url_iff_beds_raw [of example_web "Finite 0" ?rec "[]" ?r "[]"]
  have "Beds_Source_URL ?r = Hospital_Page_URL ?rec" by blast
  with w show ?thesis by (simp add: str_truthy_def)
qed

text \<open>
  The value cell of the capacity row of this page is empty: the raw capacity is the
  empty string, which is a value and not the absent one, and the source URL is absent.
\<close>

theorem blank_beds_raw_counterexample:
  "worker example_web (Finite 0) (plain_record ''https://en.wikipedia.org/wiki/Blank_Beds'') []
     = (Inr (enriched_of (plain_record ''https://en.wikipedia.org/wiki/Blank_Beds'')
               None None (Some []) None None), [])
   \<and> Beds_Raw (enriched_of (plain_record ''https://en.wikipedia.org/wiki/Blank_Beds'')
               None None (Some []) None None) \<noteq> None
   \<and> Beds_Source_URL (enriched_of (plain_record ''https://en.wikipedia.org/wiki/Blank_Beds'')
               None None (Some []) None None) = None"
  by (simp add: worker_blank_beds) (simp add: enriched_of_def)

text \<open>
  C1. A listing record on the equator, latitude 0.0 and longitude -123.1, linked to a page
  whose geotag reads 49.2; -123.1: enrichment replaces the latitude by that of the page.
  The merge is \<^verbatim>\<open>rec.get("Latitude") or lat2\<close>, and a zero is not true in a condition.
\<close>

theorem enrichment_overwrites_zero_latitude:
  "Latitude (equator_record ''https://en.wikipedia.org/wiki/Victoria_General_Hospital'')
     = Some (Finite 0)
   \<and> enrich_with_hospital_pages example_web
        [equator_record ''https://en.wikipedia.org/wiki/Victoria_General_Hospital'']
        10 (Finite 0) []
      = (Inr [enriched_of
                (equator_record ''https://en.wikipedia.org/wiki/Victoria_General_Hospital'')
                (Some (Finite (246 / 5))) (Some (Finite (- (1231 / 10))))
                (Some ''312 (acute)'') (Some 312)
                (Some ''https://en.wikipedia.org/wiki/Victoria_General_Hospital'')], [])"
  by (simp add: enrich_with_hospital_pages_def worker_victoria_equator)
    (simp add: equator_record_def)

text \<open>
  C5. The same record linked to a page that answers 404: the fetch fails, one warning is
  written, and the record that comes out has lost its latitude, so it did not pass through
  unchanged.
\<close>

theorem failed_fetch_clears_zero_latitude:
  "fetch example_web ''https://en.wikipedia.org/wiki/Moved'' []
     = (Inr None, [''[warn] GET https://en.wikipedia.org/wiki/Moved -> 404'' @ [CHR 0x0A]])
   \<and> Latitude (equator_record ''https://en.wikipedia.org/wiki/Moved'') = Some (Finite 0)
   \<and> worker example_web (Finite 0) (equator_record ''https://en.wikipedia.org/wiki/Moved'') []
      = (Inr (enriched_of (equator_record ''https://en.wikipedia.org/wiki/Moved'')
                None (Some (Finite (- (1231 / 10)))) None None None),
         [''[warn] GET https://en.wikipedia.org/wiki/Moved -> 404'' @ [CHR 0x0A]])"
  by (simp add: fetch_moved worker_moved_equator) (simp add: equator_record_def)

section \<open>The listing\<close>

text \<open>Every record built from the listing has both coordinates or neither.\<close>

lemma parse_row_paired:
  "parse_row join section tr = Some r \<Longrightarrow> (Latitude r = None) = (Longitude r = None)"
  by (auto simp: parse_row_def split: list.splits if_splits prod.splits
      dest: extract_coords_paired)

lemma parse_list_tables_paired:
  "r \<in> set (parse_list_tables join soup) \<Longrightarrow> (Latitude r = None) = (Longitude r = None)"
  by (auto simp: parse_list_tables_def map_filter_def dest: parse_row_paired)

lemma titles_listing_page:
  "lower (strip (replace ''[edit]'' [] (clean_text ''Island Health[edit]''))) = ''island health''"
  "lower (strip (replace ''[edit]'' [] (clean_text ''See also[edit]''))) = ''see also''"
  by code_simp+

lemma lower_sections:
  "map lower HEALTH_SECTIONS =
     [''fraser health'', ''interior health'', ''island health'', ''northern health'',
      ''vancouver coastal health'', ''provincial health services authority'',
      ''providence health care'', ''other'']"
  by code_simp

lemma tables_listing_page:
  "map (extract_tables_under_section listing_page) HEALTH_SECTIONS
     = [[], [], [[header_row, victoria_row, equator_row]], [], [], [], [], []]"
  using lower_sections
  by (simp add: HEALTH_SECTIONS_def extract_tables_under_section_def listing_page_def
      empty_soup_def titles_listing_page startswith_def is_heading_def)

lemma clean_victoria: "clean_text ''Victoria  General Hospital'' = ''Victoria General Hospital''"
  by code_simp

lemma clean_words:
  "clean_text ''Victoria'' = ''Victoria''"
  "clean_text ''Equator Clinic'' = ''Equator Clinic''"
  "clean_text ''Tofino'' = ''Tofino''"
  by code_simp+

lemma parse_header_row: "parse_row join section header_row = None"
  by (simp add: parse_row_def header_row_def)

lemma parse_victoria_row:
  "parse_row (\<lambda>base href. base @ href) ''Island Health'' victoria_row = Some victoria_listing"
proof -
  have "extract_coords_from_node victoria_row = (None, None)"
    by (simp add: extract_coords_from_node_def coords_from_lat_lon_def coords_from_maplink_def
        victoria_row_def)
  then show ?thesis
    by (simp add: parse_row_def) 
      (simp add: victoria_row_def victoria_listing_def clean_victoria clean_words WIKI_BASE_def)
qed

lemma parse_equator_row:
  "parse_row join ''Island Health'' equator_row = Some equator_listing"
proof -
  have "geotag_strategy equator_row = Some (Finite 0, Finite (- (1231 / 10)))"
    by (simp add: geotag_strategy_def equator_row_def tokens_equator parse_pair_def
        py_float_0 py_float_m123_1)
  then have "extract_coords_from_node equator_row
               = (Some (Finite 0), Some (Finite (- (1231 / 10))))"
    by (simp add: geotag_block)
  then show ?thesis
    by (simp add: parse_row_def)
      (simp add: equator_row_def equator_listing_def clean_words)
qed

lemma parse_listing_page:
  "parse_list_tables (\<lambda>base href. base @ href) listing_page = [victoria_listing, equator_listing]"
proof -
  have "parse_list_tables (\<lambda>base href. base @ href) listing_page
      = concat (map (\<lambda>(section, tables).
                 concat (map (List.map_filter (parse_row (\<lambda>base href. base @ href) section))
                   tables))
          (zip HEALTH_SECTIONS
             (map (extract_tables_under_section listing_page) HEALTH_SECTIONS)))"
    by (simp add: parse_list_tables_def HEALTH_SECTIONS_def)
  also have "\<dots> = [victoria_listing, equator_listing]"
    unfolding tables_listing_page
    by (simp add: HEALTH_SECTIONS_def map_filter_def parse_header_row parse_victoria_row
        parse_equator_row)
  finally show ?thesis .
qed

lemma worker_victoria_listing:
  "worker example_web (Finite 0) victoria_listing [] = (Inr victoria_enriched, [])"
proof -
  have "parse_beds_and_coords_from_hospital example_web
          ''https://en.wikipedia.org/wiki/Victoria_General_Hospital'' []
        = (Inr (Some ''312 (acute)'', Some 312, Some (Finite (246 / 5)),
                Some (Finite (- (1231 / 10)))), [])"
    using web_victoria
      parse_beds_200 [of example_web "''https://en.wikipedia.org/wiki/Victoria_General_Hospital''"
        "\<lparr>status_code = 200, body = general_page\<rparr>" "[]"]
    by (simp add: extract_coords_general_page)
      (simp add: general_page_def scan_general_page del: scan_infobox.simps)
  then show ?thesis
    by (simp add: worker_with_url
          [where url = "''https://en.wikipedia.org/wiki/Victoria_General_Hospital''"]
        victoria_listing_def victoria_enriched_def enriched_of_def float_or_def str_truthy_def)
qed

lemma worker_equator_listing:
  "worker get (Finite 0) equator_listing err = (Inr equator_enriched, err)"
  by (simp add: worker_no_url str_truthy_def equator_listing_def equator_enriched_def
      enriched_of_def float_or_def)

lemma enrich_listing_page:
  "enrich_with_hospital_pages example_web [victoria_listing, equator_listing] 10 (Finite 0) []
     = (Inr [victoria_enriched, equator_enriched], [])"
  by (simp add: enrich_with_hospital_pages_def worker_victoria_listing worker_equator_listing)

section \<open>The run\<close>

lemma main_unreachable:
  assumes "unreachable (http_get e) LIST_URL"
  shows "fst (main e a w) = Exit 2" and "files (snd (main e a w)) = files w"
    and "stdout (snd (main e a w)) = stdout w"
    and "last (stderr (snd (main e a w))) = ''Failed to load list page. Aborting.'' @ [CHR 0x0A]"
  using assms
  by (auto simp: main_def fetch_def unreachable_def split: get_outcome.splits)

lemma main_no_rows:
  assumes "http_get e LIST_URL = Returns r" and "status_code r = 200"
    and "parse_list_tables (urljoin e) (body r) = []"
  shows "fst (main e a w) = Exit 3" and "files (snd (main e a w)) = files w"
    and "stdout (snd (main e a w)) = stdout w"
    and "last (stderr (snd (main e a w)))
           = ''No tables parsed from list page. Aborting.'' @ [CHR 0x0A]"
  using assms by (auto simp: main_def fetch_def response_truthy_def)

lemma main_success:
  assumes "http_get e LIST_URL = Returns r" and "status_code r = 200"
    and "parse_list_tables (urljoin e) (body r) \<noteq> []"
    and "enrich_with_hospital_pages (http_get e) (parse_list_tables (urljoin e) (body r))
           (workers a) (delay a) (stderr w) = (Inr full_rows, err')"
  shows "main e a w =
     (Exit 0,
      w\<lparr>stderr := err',
        files := (files w)(out a \<mapsto> to_csv (assemble full_rows)),
        stdout := stdout w @ [summary (out a) (length (assemble full_rows))]\<rparr>)"
  using assms
  by (auto simp: main_def fetch_def response_truthy_def summary_def split: list.splits)

lemma main_exit_2: "fst (main e a w) = Exit 2 \<Longrightarrow> unreachable (http_get e) LIST_URL"
  by (auto simp: main_def fetch_def unreachable_def response_truthy_def
      split: get_outcome.splits if_splits list.splits prod.splits sum.splits)

lemma main_exit_3:
  "fst (main e a w) = Exit 3 \<Longrightarrow>
   \<exists>r. http_get e LIST_URL = Returns r \<and> status_code r = 200
       \<and> parse_list_tables (urljoin e) (body r) = []"
  by (auto simp: main_def fetch_def unreachable_def response_truthy_def
      split: get_outcome.splits if_splits list.splits prod.splits sum.splits)

lemma main_exit_0:
  "fst (main e a w) = Exit 0 \<Longrightarrow>
   \<exists>full_rows. files (snd (main e a w)) = (files w)(out a \<mapsto> to_csv (assemble full_rows))
     \<and> stdout (snd (main e a w)) = stdout w @ [summary (out a) (length (assemble full_rows))]"
  by (auto simp: main_def fetch_def unreachable_def response_truthy_def summary_def
      split: get_outcome.splits if_splits list.splits prod.splits sum.splits)

lemma parse_empty_soup: "parse_list_tables join empty_soup = []"
  by (simp add: parse_list_tables_def extract_tables_under_section_def empty_soup_def)

lemma assemble_example: "assemble [victoria_enriched, equator_enriched] = [equator_enriched, victoria_enriched]"
  by (simp add: assemble_def sort_values_def drop_duplicates_def name_city_def
      authority_name_def victoria_enriched_def equator_enriched_def enriched_of_def
      victoria_listing_def equator_listing_def)

lemma show_two: "show_nat_grouped (Suc (Suc 0)) = ''2''"
proof -
  have "show_nat_grouped 2 = ''2''" by code_simp
  then show ?thesis by (simp add: numeral_2_eq_2)
qed

lemma web_listing:
  "http_get (example_env (Returns \<lparr>status_code = 200, body = listing_page\<rparr>)) = example_web"
  "http_get (example_env (Returns \<lparr>status_code = 200, body = listing_page\<rparr>)) LIST_URL
     = Returns \<lparr>status_code = 200, body = listing_page\<rparr>"
  by (simp_all add: example_env_def example_web_def example_get_def)

text \<open>The run on the network of the examples: two rows, sorted, written and counted.\<close>

lemma main_example_run:
  "main (example_env (Returns \<lparr>status_code = 200, body = listing_page\<rparr>)) example_args
     empty_world
   = (Exit 0,
      \<lparr>stderr = [],
       stdout = [''Wrote bc_hospitals_from_wikipedia.csv with 2 rows.'' @ [CHR 0x0A]],
       files = [''bc_hospitals_from_wikipedia.csv''
                  \<mapsto> Csv COLUMNS [equator_enriched, victoria_enriched]]\<rparr>)"
proof -
  let ?e = "example_env (Returns \<lparr>status_code = 200, body = listing_page\<rparr>)"
  have rows: "parse_list_tables (urljoin ?e) (body \<lparr>status_code = 200, body = listing_page\<rparr>)
                = [victoria_listing, equator_listing]"
    using parse_listing_page by (simp add: example_env_def)
  have enrich: "enrich_with_hospital_pages (http_get ?e)
                  (parse_list_tables (urljoin ?e)
                     (body \<lparr>status_code = 200, body = listing_page\<rparr>))
                  (workers example_args) (delay example_args) (stderr empty_world)
                = (Inr [victoria_enriched, equator_enriched], [])"
    unfolding rows web_listing
    using enrich_listing_page by (simp add: example_args_def empty_world_def)
  have ne: "parse_list_tables (urljoin ?e) (body \<lparr>status_code = 200, body = listing_page\<rparr>)
              \<noteq> []"
    using rows by simp
  have "main ?e example_args empty_world =
     (Exit 0,
      empty_world\<lparr>stderr := [],
        files := (files empty_world)(out example_args \<mapsto>
                    to_csv (assemble [victoria_enriched, equator_enriched])),
        stdout := stdout empty_world
                  @ [summary (out example_args)
                       (length (assemble [victoria_enriched, equator_enriched]))]\<rparr>)"
    using main_success [of ?e "\<lparr>status_code = 200, body = listing_page\<rparr>" example_args
        empty_world "[victoria_enriched, equator_enriched]" "[]"] web_listing(2) ne enrich
    by simp
  then show ?thesis
    by (simp add: assemble_example summary_def show_two to_csv_def example_args_def
        empty_world_def)
qed

text \<open>
  C9. When the request for the listing page fails or returns a status other than 200, the
  run ends with exit code 2; when the page is fetched and no record is parsed from it, with
  exit code 3, which is another code, and neither is zero. In both cases no file is written
  and nothing is printed. A run that ends with exit code 0 has written the assembled
  dataset to the output path and printed the summary with the number of its rows, and the
  run does end so when the page is fetched, records are parsed and enrichment raises
  nothing.
\<close>

theorem main_exit_codes:
  "(unreachable (http_get e) LIST_URL \<longrightarrow>
      fst (main e a w) = Exit 2
      \<and> files (snd (main e a w)) = files w \<and> stdout (snd (main e a w)) = stdout w)
   \<and> (http_get e LIST_URL = Returns r \<and> status_code r = 200
        \<and> parse_list_tables (urljoin e) (body r) = [] \<longrightarrow>
      fst (main e a w) = Exit 3
      \<and> files (snd (main e a w)) = files w \<and> stdout (snd (main e a w)) = stdout w)
   \<and> Exit 2 \<noteq> Exit 3 \<and> Exit 2 \<noteq> Exit 0 \<and> Exit 3 \<noteq> Exit 0
   \<and> (fst (main e a w) = Exit 0 \<longrightarrow>
        (\<exists>full_rows.
           files (snd (main e a w)) = (files w)(out a \<mapsto> to_csv (assemble full_rows))
           \<and> stdout (snd (main e a w))
               = stdout w @ [summary (out a) (length (assemble full_rows))]))
   \<and> (http_get e LIST_URL = Returns r \<and> status_code r = 200
        \<and> parse_list_tables (urljoin e) (body r) \<noteq> []
        \<and> enrich_with_hospital_pages (http_get e) (parse_list_tables (urljoin e) (body r))
              (workers a) (delay a) (stderr w) = (Inr full_rows, err') \<longrightarrow>
        fst (main e a w) = Exit 0)"
proof -
  have 1: "unreachable (http_get e) LIST_URL \<longrightarrow>
      fst (main e a w) = Exit 2
      \<and> files (snd (main e a w)) = files w \<and> stdout (snd (main e a w)) = stdout w"
    by (simp add: main_unreachable)
  have 2: "http_get e LIST_URL = Returns r \<and> status_code r = 200
        \<and> parse_list_tables (urljoin e) (body r) = [] \<longrightarrow>
      fst (main e a w) = Exit 3
      \<and> files (snd (main e a w)) = files w \<and> stdout (snd (main e a w)) = stdout w"
    by (simp add: main_no_rows)
  have 3: "Exit 2 \<noteq> Exit 3" "Exit 2 \<noteq> Exit 0" "Exit 3 \<noteq> Exit 0"
    by simp_all
  have 4: "fst (main e a w) = Exit 0 \<longrightarrow>
        (\<exists>full_rows.
           files (snd (main e a w)) = (files w)(out a \<mapsto> to_csv (assemble full_rows))
           \<and> stdout (snd (main e a w))
               = stdout w @ [summary (out a) (length (assemble full_rows))])"
    using main_exit_0 [of e a w] by blast
  have 5: "http_get e LIST_URL = Returns r \<and> status_code r = 200
        \<and> parse_list_tables (urljoin e) (body r) \<noteq> []
        \<and> enrich_with_hospital_pages (http_get e) (parse_list_tables (urljoin e) (body r))
              (workers a) (delay a) (stderr w) = (Inr full_rows, err') \<longrightarrow>
        fst (main e a w) = Exit 0"
    by (simp add: main_success)
  from 1 2 3 4 5 show ?thesis by (intro conjI)
qed

theorem main_exit_codes_witness:
  "fst (main (example_env (Raises_RequestException ''timed out'')) example_args empty_world)
     = Exit 2
   \<and> files (snd (main (example_env (Raises_RequestException ''timed out'')) example_args
                     empty_world)) = Map.empty
   \<and> fst (main (example_env (Returns \<lparr>status_code = 200, body = empty_soup\<rparr>))
             example_args empty_world) = Exit 3
   \<and> files (snd (main (example_env (Returns \<lparr>status_code = 200, body = empty_soup\<rparr>))
                     example_args empty_world)) = Map.empty
   \<and> fst (main (example_env (Returns \<lparr>status_code = 200, body = listing_page\<rparr>))
             example_args empty_world) = Exit 0
   \<and> snd (main (example_env (Returns \<lparr>status_code = 200, body = listing_page\<rparr>))
             example_args empty_world)
       = \<lparr>stderr = [],
          stdout = [''Wrote bc_hospitals_from_wikipedia.csv with 2 rows.'' @ [CHR 0x0A]],
          files = [''bc_hospitals_from_wikipedia.csv''
                     \<mapsto> Csv COLUMNS [equator_enriched, victoria_enriched]]\<rparr>"
proof -
  let ?down = "example_env (Raises_RequestException ''timed out'')"
  let ?bare = "example_env (Returns \<lparr>status_code = 200, body = empty_soup\<rparr>)"
  let ?up = "example_env (Returns \<lparr>status_code = 200, body = listing_page\<rparr>)"
  have d: "unreachable (http_get ?down) LIST_URL"
    by (simp add: unreachable_def example_env_def example_get_def)
  have 12: "fst (main ?down example_args empty_world) = Exit 2
      \<and> files (snd (main ?down example_args empty_world)) = files empty_world"
    using d main_exit_codes [of ?down example_args empty_world] by blast
  have b: "http_get ?bare LIST_URL = Returns \<lparr>status_code = 200, body = empty_soup\<rparr>
      \<and> status_code \<lparr>status_code = 200, body = empty_soup\<rparr> = 200
      \<and> parse_list_tables (urljoin ?bare) (body \<lparr>status_code = 200, body = empty_soup\<rparr>) = []"
    by (simp add: example_env_def example_get_def parse_empty_soup)
  have 34: "fst (main ?bare example_args empty_world) = Exit 3
      \<and> files (snd (main ?bare example_args empty_world)) = files empty_world"
    using b main_exit_codes [of ?bare example_args empty_world
        "\<lparr>status_code = 200, body = empty_soup\<rparr>"]
    by blast
  have rows: "parse_list_tables (urljoin ?up)
                 (body \<lparr>status_code = 200, body = listing_page\<rparr>)
               = [victoria_listing, equator_listing]"
    using parse_listing_page by (simp add: example_env_def)
  have enrich: "enrich_with_hospital_pages (http_get ?up)
            (parse_list_tables (urljoin ?up) (body \<lparr>status_code = 200, body = listing_page\<rparr>))
            (workers example_args) (delay example_args) (stderr empty_world)
          = (Inr [victoria_enriched, equator_enriched], [])"
    unfolding rows web_listing
    using enrich_listing_page by (simp add: example_args_def empty_world_def)
  have u: "http_get ?up LIST_URL = Returns \<lparr>status_code = 200, body = listing_page\<rparr>
      \<and> status_code \<lparr>status_code = 200, body = listing_page\<rparr> = 200
      \<and> parse_list_tables (urljoin ?up) (body \<lparr>status_code = 200, body = listing_page\<rparr>) \<noteq> []
      \<and> enrich_with_hospital_pages (http_get ?up)
            (parse_list_tables (urljoin ?up) (body \<lparr>status_code = 200, body = listing_page\<rparr>))
            (workers example_args) (delay example_args) (stderr empty_world)
          = (Inr [victoria_enriched, equator_enriched], [])"
    using web_listing(2) rows enrich by simp
  have 5: "fst (main ?up example_args empty_world) = Exit 0"
    using u main_exit_codes [of ?up example_args empty_world
        "\<lparr>status_code = 200, body = listing_page\<rparr>" "[victoria_enriched, equator_enriched]" "[]"]
    by blast
  from 12 34 5 show ?thesis by (simp add: main_example_run) (simp add: empty_world_def)
qed

text \<open>
  C2. The listing row of the equator clinic has the geotag 0; -123.1 and no link. The
  record built from it has both coordinates; the enriched record has a longitude and no
  latitude, since the zero latitude is not true in the merge and nothing replaces it; and
  that record is a row of the dataset the run writes.
\<close>

theorem enrichment_unpairs_coordinates:
  "parse_list_tables (\<lambda>base href. base @ href) listing_page = [victoria_listing, equator_listing]
   \<and> Latitude equator_listing = Some (Finite 0)
   \<and> Longitude equator_listing = Some (Finite (- (1231 / 10)))
   \<and> enrich_with_hospital_pages example_web [victoria_listing, equator_listing] 10 (Finite 0) []
       = (Inr [victoria_enriched, equator_enriched], [])
   \<and> Latitude equator_enriched = None
   \<and> Longitude equator_enriched = Some (Finite (- (1231 / 10)))
   \<and> files (snd (main (example_env (Returns \<lparr>status_code = 200, body = listing_page\<rparr>))
                     example_args empty_world))
       = [''bc_hospitals_from_wikipedia.csv''
            \<mapsto> Csv COLUMNS [equator_enriched, victoria_enriched]]"
  by (simp add: parse_listing_page enrich_listing_page main_example_run)
    (simp add: equator_listing_def equator_enriched_def enriched_of_def)

end
